theory Spec2Isabelle
  imports Complex_Main "HOL-Library.Multiset"
begin

section \<open>The teen-content image filter (server/content-filter.py)\<close>

text \<open>
  The script decodes a base64 image, runs the NudeNet detector on it, reduces the
  detections to a map from label to the largest confidence seen, and compares the
  confidences of five fixed labels with a threshold. Everything the script calls in
  PIL, numpy, nudenet and base64 is an external collaborator: it is a field of the
  record \<open>env\<close>, and each such call either raises or returns.

  A Python float is modelled by its exact value, a rational number. A float literal
  of the source denotes the IEEE-754 double nearest to the decimal written, so
  \<^verbatim>\<open>0.2\<close> is \<open>3602879701896397 / 2^54\<close>, slightly above one fifth. Confidences
  are finite (the detector's scores lie in the unit interval); NaN and the infinities
  are outside the model.
\<close>

subsection \<open>Data\<close>

type_synonym score_map = "string \<rightharpoonup> rat"

text \<open>One element of \<^verbatim>\<open>detections\<close>: \<^verbatim>\<open>detection['class']\<close> and \<^verbatim>\<open>detection['score']\<close>.\<close>

record detection =
  label :: string
  confidence :: rat

text \<open>The dictionary every path returns or prints.\<close>

record verdict =
  appropriate :: bool
  scores :: score_map
  message :: string

text \<open>
  Exceptions, all of them subclasses of \<^verbatim>\<open>Exception\<close>. \<open>Raised\<close> is an exception of
  an external library, carrying its text.
\<close>

datatype exn =
    ImportError string
  | KeyError string
  | AttributeError string
  | Raised string

text \<open>A text between single quotes, as \<^verbatim>\<open>repr\<close> writes a plain string.\<close>

definition quoted :: "string \<Rightarrow> string" where
  "quoted s = [CHR 0x27] @ s @ [CHR 0x27]"

text \<open>\<^verbatim>\<open>str(e)\<close>; the text of a \<^verbatim>\<open>KeyError\<close> is the \<^verbatim>\<open>repr\<close> of the key.\<close>

fun str :: "exn \<Rightarrow> string" where
  "str (ImportError m) = m"
| "str (KeyError k) = quoted k"
| "str (AttributeError m) = m"
| "str (Raised m) = m"

text \<open>What one call of \<^verbatim>\<open>print\<close> writes: a JSON document or a plain text, on one line.\<close>

datatype line = Json verdict | Text string

text \<open>The process: the global \<^verbatim>\<open>detector\<close> and the two output streams.\<close>

record 'h process =
  detector :: "'h option"
  stdout :: "line list"
  stderr :: "line list"

text \<open>
  The world outside the script: the outcome of the imports at the top of the module,
  and the library calls of \<^verbatim>\<open>init_detector\<close> and \<^verbatim>\<open>check_image_content\<close>.
\<close>

record ('h, 'b, 'i, 'a) env =
  DEPS_AVAILABLE :: bool
  IMPORT_ERROR :: string
  NudeDetector :: "exn + 'h"
  b64decode :: "string \<Rightarrow> exn + 'b"
  Image_open :: "'b \<Rightarrow> exn + 'i"
  mode :: "'i \<Rightarrow> string"
  convert :: "'i \<Rightarrow> string \<Rightarrow> exn + 'i"
  np_array :: "'i \<Rightarrow> exn + 'a"
  detect :: "'h \<Rightarrow> 'a \<Rightarrow> exn + detection list"

subsection \<open>Formatting a float with two decimals\<close>

text \<open>
  \<^verbatim>\<open>f"{x:.2f}"\<close>: the exact value of the float, rounded to the nearest hundredth, ties
  to the even one.
\<close>

definition round_half_even :: "rat \<Rightarrow> int" where
  "round_half_even x =
     (let f = \<lfloor>x\<rfloor>; r = x - of_int f
      in if r < 1 / 2 then f
         else if 1 / 2 < r then f + 1
         else if even f then f else f + 1)"

definition digit :: "nat \<Rightarrow> char" where
  "digit d = ''0123456789'' ! (d mod 10)"

fun decimal :: "nat \<Rightarrow> string" where
  "decimal n = (if n < 10 then [digit n] else decimal (n div 10) @ [digit n])"

definition format_2f :: "rat \<Rightarrow> string" where
  "format_2f x =
     (let n = nat (round_half_even (\<bar>x\<bar> * 100))
      in (if x < 0 then ''-'' else '''') @ decimal (n div 100) @ ''.''
           @ [digit (n div 10), digit n])"

subsection \<open>Initialising the detector\<close>

definition init_detector ::
  "('h, 'b, 'i, 'a) env \<Rightarrow> 'h process \<Rightarrow> (exn + unit) \<times> 'h process" where
  "init_detector env st =
     (if \<not> DEPS_AVAILABLE env then
        (Inl (ImportError (''Required dependencies not available: '' @ IMPORT_ERROR env)), st)
      else if detector st = None then
        (case NudeDetector env of
           Inl e \<Rightarrow> (Inl e, st)
         | Inr h \<Rightarrow>
             (Inr (), st\<lparr>detector := Some h,
                        stderr := stderr st @ [Text ''NudeNet detector initialized'']\<rparr>))
      else (Inr (), st))"

subsection \<open>Decoding and detection\<close>

text \<open>
  Lines 35 to 49: from \<^verbatim>\<open>init_detector()\<close> to \<^verbatim>\<open>detector.detect(image_array)\<close>.
  The source's \<^verbatim>\<open>image\<close> is \<open>img\<close> before and \<open>img_rgb\<close> after the conversion.
\<close>

definition run_detection ::
  "('h, 'b, 'i, 'a) env \<Rightarrow> string \<Rightarrow> 'h process \<Rightarrow> (exn + detection list) \<times> 'h process" where
  "run_detection env image_data_base64 st =
     (case init_detector env st of
        (Inl e, st') \<Rightarrow> (Inl e, st')
      | (Inr _, st') \<Rightarrow>
          (case b64decode env image_data_base64 of
             Inl e \<Rightarrow> Inl e
           | Inr image_bytes \<Rightarrow>
          (case Image_open env image_bytes of
             Inl e \<Rightarrow> Inl e
           | Inr img \<Rightarrow>
          (case (if mode env img \<noteq> ''RGB'' then convert env img ''RGB'' else Inr img) of
             Inl e \<Rightarrow> Inl e
           | Inr img_rgb \<Rightarrow>
          (case np_array env img_rgb of
             Inl e \<Rightarrow> Inl e
           | Inr image_array \<Rightarrow>
          (case detector st' of
             None \<Rightarrow>
               Inl (AttributeError
                     (quoted ''NoneType'' @ '' object has no attribute '' @ quoted ''detect''))
           | Some h \<Rightarrow> detect env h image_array)))), st'))"

subsection \<open>Aggregating the scores\<close>

text \<open>Python's \<^verbatim>\<open>max(a, b)\<close> keeps \<open>a\<close> unless \<open>b\<close> is strictly greater.\<close>

definition py_max :: "rat \<Rightarrow> rat \<Rightarrow> rat" where
  "py_max a b = (if a < b then b else a)"

text \<open>
  The loop of lines 53 to 59, with the dictionary passed along. Reading
  \<^verbatim>\<open>scores[label]\<close> raises \<^verbatim>\<open>KeyError\<close> on a missing key.
\<close>

fun aggregate :: "score_map \<Rightarrow> detection list \<Rightarrow> exn + score_map" where
  "aggregate sc [] = Inr sc"
| "aggregate sc (d # ds) =
     (let sc1 = (if sc (label d) = None then sc(label d \<mapsto> 0) else sc)
      in case sc1 (label d) of
           None \<Rightarrow> Inl (KeyError (label d))
         | Some c \<Rightarrow> aggregate (sc1(label d \<mapsto> py_max c (confidence d))) ds)"

subsection \<open>The policy\<close>

definition explicit_threshold :: rat where
  "explicit_threshold = 3602879701896397 / 18014398509481984"

definition suggestive_threshold :: rat where
  "suggestive_threshold = 5404319552844595 / 18014398509481984"

definition inappropriate_labels :: "string list" where
  "inappropriate_labels =
     [''EXPOSED_ANUS'', ''EXPOSED_ARMPITS'', ''EXPOSED_BELLY'', ''EXPOSED_BUTTOCKS'',
      ''EXPOSED_BREAST_F'', ''EXPOSED_BREAST_M'', ''EXPOSED_GENITALIA_F'',
      ''EXPOSED_GENITALIA_M'', ''EXPOSED_FEET'', ''FACE_F'', ''FACE_M'']"

definition high_risk_labels :: "string list" where
  "high_risk_labels =
     [''EXPOSED_ANUS'', ''EXPOSED_BUTTOCKS'', ''EXPOSED_BREAST_F'',
      ''EXPOSED_GENITALIA_F'', ''EXPOSED_GENITALIA_M'']"

text \<open>\<^verbatim>\<open>scores.get(label, 0)\<close>.\<close>

definition get :: "score_map \<Rightarrow> string \<Rightarrow> rat \<Rightarrow> rat" where
  "get sc l dflt = (case sc l of None \<Rightarrow> dflt | Some c \<Rightarrow> c)"

text \<open>
  The loop of lines 78 to 84 over the labels still to visit: \<open>Some r\<close> when it
  leaves the function with \<open>r\<close>, \<open>None\<close> when it runs to its end.
\<close>

fun high_risk_loop :: "score_map \<Rightarrow> string list \<Rightarrow> (exn + verdict) option" where
  "high_risk_loop sc [] = None"
| "high_risk_loop sc (l # ls) =
     (if explicit_threshold < get sc l 0 then
        Some (case sc l of
                None \<Rightarrow> Inl (KeyError l)
              | Some c \<Rightarrow>
                  Inr \<lparr>appropriate = False, scores = sc,
                       message = ''Inappropriate content detected: '' @ l
                                   @ '' (confidence: '' @ format_2f c @ '')''\<rparr>)
      else high_risk_loop sc ls)"

text \<open>Lines 61 to 101; the loop over the moderate-risk labels is commented out.\<close>

definition evaluate :: "score_map \<Rightarrow> exn + verdict" where
  "evaluate sc =
     (case high_risk_loop sc high_risk_labels of
        Some r \<Rightarrow> r
      | None \<Rightarrow>
          Inr \<lparr>appropriate = True, scores = sc,
               message = ''Content appropriate for teen users''\<rparr>)"

subsection \<open>The filter and the command line\<close>

text \<open>The body of the \<^verbatim>\<open>try\<close> block.\<close>

definition try_body ::
  "('h, 'b, 'i, 'a) env \<Rightarrow> string \<Rightarrow> 'h process \<Rightarrow> (exn + verdict) \<times> 'h process" where
  "try_body env image_data_base64 st =
     (case run_detection env image_data_base64 st of
        (Inl e, st') \<Rightarrow> (Inl e, st')
      | (Inr detections, st') \<Rightarrow>
          (case aggregate Map.empty detections of
             Inl e \<Rightarrow> (Inl e, st')
           | Inr sc \<Rightarrow> (evaluate sc, st')))"

definition check_image_content ::
  "('h, 'b, 'i, 'a) env \<Rightarrow> string \<Rightarrow> 'h process \<Rightarrow> verdict \<times> 'h process" where
  "check_image_content env image_data_base64 st =
     (case try_body env image_data_base64 st of
        (Inr v, st') \<Rightarrow> (v, st')
      | (Inl e, st') \<Rightarrow>
          (\<lparr>appropriate = False, scores = Map.empty,
            message = ''Content filtering error: '' @ str e\<rparr>, st'))"

text \<open>
  \<^verbatim>\<open>main\<close> on \<^verbatim>\<open>sys.argv\<close>, whose first element is the script itself. The result is
  the exit status with the final state of the process.
\<close>

definition main :: "('h, 'b, 'i, 'a) env \<Rightarrow> string list \<Rightarrow> 'h process \<Rightarrow> nat \<times> 'h process" where
  "main env argv st =
     (if length argv \<noteq> 2 then
        (1, st\<lparr>stdout := stdout st @
                 [Json \<lparr>appropriate = False, scores = Map.empty,
                        message = ''Usage: python content-filter.py <base64_image_data>''\<rparr>]\<rparr>)
      else
        (case check_image_content env (argv ! 1) st of
           (result, st') \<Rightarrow> (0, st'\<lparr>stdout := stdout st' @ [Json result]\<rparr>)))"

subsection \<open>One iteration of the aggregation loop\<close>

text \<open>
  What lines 54 to 59 do to the dictionary for one detection, as a total function;
  \<open>aggregate_foldl\<close> below shows that the loop of the source computes it and never
  raises.
\<close>

definition keep_max :: "score_map \<Rightarrow> detection \<Rightarrow> score_map" where
  "keep_max sc d = sc(label d \<mapsto> py_max (get sc (label d) 0) (confidence d))"

subsection \<open>The base64 decoder of the Python library\<close>

text \<open>
  \<^verbatim>\<open>base64.b64decode(s)\<close> is not part of the script; where a statement needs to know what
  it does to a given payload, this is the function, after \<^verbatim>\<open>binascii.a2b_base64\<close>
  without strict mode. A character outside the alphabet is skipped, a padding character
  that comes too early is skipped, and decoding stops at the padding that completes a
  group of four. Bytes are numbers below 256.
\<close>

definition base64_alphabet :: string where
  "base64_alphabet = ''ABCDEFGHIJKLMNOPQRSTUVWXYZabcdefghijklmnopqrstuvwxyz0123456789+/''"

text \<open>The value of a character of the alphabet, and 64 for any other character.\<close>

definition table_a2b_base64 :: "char \<Rightarrow> nat" where
  "table_a2b_base64 c = length (takeWhile (\<lambda>x. x \<noteq> c) base64_alphabet)"

text \<open>
  The loop over the characters, with its variables \<^verbatim>\<open>quad_pos\<close>, \<^verbatim>\<open>leftchar\<close> and
  \<^verbatim>\<open>pads\<close> and the bytes written so far, and the check of \<^verbatim>\<open>quad_pos\<close> after it.
\<close>

fun a2b_base64 :: "nat \<Rightarrow> nat \<Rightarrow> nat \<Rightarrow> nat list \<Rightarrow> string \<Rightarrow> exn + nat list" where
  "a2b_base64 quad_pos leftchar pads bin_data [] =
     (if quad_pos \<noteq> 0 then
        (if quad_pos = 1 then
           Inl (Raised (''Invalid base64-encoded string: number of data characters (''
                          @ decimal (length bin_data div 3 * 4 + 1)
                          @ '') cannot be 1 more than a multiple of 4''))
         else Inl (Raised ''Incorrect padding''))
      else Inr bin_data)"
| "a2b_base64 quad_pos leftchar pads bin_data (this_ch # rest) =
     (if this_ch = CHR ''='' then
        (if 2 \<le> quad_pos \<and> 4 \<le> quad_pos + (pads + 1) then Inr bin_data
         else a2b_base64 quad_pos leftchar (if 2 \<le> quad_pos then pads + 1 else pads)
                bin_data rest)
      else if 64 \<le> table_a2b_base64 this_ch then
        a2b_base64 quad_pos leftchar pads bin_data rest
      else if quad_pos = 0 then
        a2b_base64 1 (table_a2b_base64 this_ch) 0 bin_data rest
      else if quad_pos = 1 then
        a2b_base64 2 (table_a2b_base64 this_ch mod 16) 0
          (bin_data @ [leftchar * 4 + table_a2b_base64 this_ch div 16]) rest
      else if quad_pos = 2 then
        a2b_base64 3 (table_a2b_base64 this_ch mod 4) 0
          (bin_data @ [leftchar * 16 + table_a2b_base64 this_ch div 4]) rest
      else
        a2b_base64 0 0 0 (bin_data @ [leftchar * 64 + table_a2b_base64 this_ch]) rest)"

text \<open>A \<^verbatim>\<open>str\<close> argument must be ASCII; then the bytes are decoded.\<close>

definition base64_b64decode :: "string \<Rightarrow> exn + nat list" where
  "base64_b64decode s =
     (if list_ex (\<lambda>c. 128 \<le> (of_char c :: nat)) s then
        Inl (Raised ''string argument should contain only ASCII characters'')
      else a2b_base64 0 0 0 [] s)"

text \<open>
  A well-formed base64 text (RFC 4648): groups of four characters of the alphabet, the
  last group ending in at most two padding characters.
\<close>

definition well_formed_base64 :: "string \<Rightarrow> bool" where
  "well_formed_base64 s \<longleftrightarrow>
     length s mod 4 = 0 \<and>
     list_all (\<lambda>c. c \<in> set base64_alphabet) (takeWhile (\<lambda>c. c \<noteq> CHR ''='') s) \<and>
     dropWhile (\<lambda>c. c \<noteq> CHR ''='') s \<in> set [[], ''='', ''=='']"

subsection \<open>The script on the dictionaries of Python\<close>

text \<open>
  The definitions above give a detection and a verdict the fields the script reads and
  writes. In the source both are dictionaries. An element of the list that
  \<^verbatim>\<open>detector.detect\<close> returns is read at the keys \<^verbatim>\<open>'class'\<close> and \<^verbatim>\<open>'score'\<close> (lines 54
  and 55), and reading an absent key raises \<^verbatim>\<open>KeyError\<close>; every \<^verbatim>\<open>return\<close> of
  \<^verbatim>\<open>check_image_content\<close> and the usage branch of \<^verbatim>\<open>main\<close> build a dictionary literal.
  This subsection is the same code with these dictionaries written out.

  \<open>item\<close> is a dictionary of the detector: the values at its two keys, \<open>None\<close> for
  an absent key. \<open>pyval\<close> is a value that \<^verbatim>\<open>json.dumps\<close> can write, and a dictionary
  with string keys is a map from its keys to such values.
\<close>

record item =
  item_class :: "string option"
  item_score :: "rat option"

datatype pyval =
    PyNone
  | PyBool bool
  | PyNumber rat
  | PyStr string
  | PyList "pyval list"
  | PyDict "string \<rightharpoonup> pyval"

type_synonym pydict = "string \<rightharpoonup> pyval"

text \<open>The local variable \<^verbatim>\<open>scores\<close> as a value: a dictionary from labels to numbers.\<close>

definition scores_value :: "score_map \<Rightarrow> pyval" where
  "scores_value sc = PyDict (\<lambda>l. map_option PyNumber (sc l))"

text \<open>The loop of lines 53 to 59, with the two reads of lines 54 and 55.\<close>

fun aggregate_items :: "score_map \<Rightarrow> item list \<Rightarrow> exn + score_map" where
  "aggregate_items sc [] = Inr sc"
| "aggregate_items sc (d # ds) =
     (case item_class d of
        None \<Rightarrow> Inl (KeyError ''class'')
      | Some l \<Rightarrow>
     (case item_score d of
        None \<Rightarrow> Inl (KeyError ''score'')
      | Some c \<Rightarrow>
          (let sc1 = (if sc l = None then sc(l \<mapsto> 0) else sc)
           in case sc1 l of
                None \<Rightarrow> Inl (KeyError l)
              | Some c0 \<Rightarrow> aggregate_items (sc1(l \<mapsto> py_max c0 c)) ds)))"

text \<open>
  Lines 35 to 49 with a detector that returns items: \<open>detect_items\<close> stands for
  \<^verbatim>\<open>detector.detect\<close>, and the field \<open>detect\<close> of \<open>env\<close> is not used.
\<close>

definition run_detection_items ::
  "('h, 'b, 'i, 'a) env \<Rightarrow> ('h \<Rightarrow> 'a \<Rightarrow> exn + item list) \<Rightarrow> string \<Rightarrow> 'h process
     \<Rightarrow> (exn + item list) \<times> 'h process" where
  "run_detection_items env detect_items image_data_base64 st =
     (case init_detector env st of
        (Inl e, st') \<Rightarrow> (Inl e, st')
      | (Inr _, st') \<Rightarrow>
          (case b64decode env image_data_base64 of
             Inl e \<Rightarrow> Inl e
           | Inr image_bytes \<Rightarrow>
          (case Image_open env image_bytes of
             Inl e \<Rightarrow> Inl e
           | Inr img \<Rightarrow>
          (case (if mode env img \<noteq> ''RGB'' then convert env img ''RGB'' else Inr img) of
             Inl e \<Rightarrow> Inl e
           | Inr img_rgb \<Rightarrow>
          (case np_array env img_rgb of
             Inl e \<Rightarrow> Inl e
           | Inr image_array \<Rightarrow>
          (case detector st' of
             None \<Rightarrow>
               Inl (AttributeError
                     (quoted ''NoneType'' @ '' object has no attribute '' @ quoted ''detect''))
           | Some h \<Rightarrow> detect_items h image_array)))), st'))"

text \<open>The loop of lines 78 to 84 with the dictionary of lines 80 to 84.\<close>

fun high_risk_loop_dict :: "score_map \<Rightarrow> string list \<Rightarrow> (exn + pydict) option" where
  "high_risk_loop_dict sc [] = None"
| "high_risk_loop_dict sc (l # ls) =
     (if explicit_threshold < get sc l 0 then
        Some (case sc l of
                None \<Rightarrow> Inl (KeyError l)
              | Some c \<Rightarrow>
                  Inr [''appropriate'' \<mapsto> PyBool False,
                       ''scores'' \<mapsto> scores_value sc,
                       ''message'' \<mapsto> PyStr (''Inappropriate content detected: '' @ l
                                   @ '' (confidence: '' @ format_2f c @ '')'')])
      else high_risk_loop_dict sc ls)"

text \<open>Lines 61 to 101 with the dictionary of lines 97 to 101.\<close>

definition evaluate_dict :: "score_map \<Rightarrow> exn + pydict" where
  "evaluate_dict sc =
     (case high_risk_loop_dict sc high_risk_labels of
        Some r \<Rightarrow> r
      | None \<Rightarrow>
          Inr [''appropriate'' \<mapsto> PyBool True,
               ''scores'' \<mapsto> scores_value sc,
               ''message'' \<mapsto> PyStr ''Content appropriate for teen users''])"

text \<open>The body of the \<^verbatim>\<open>try\<close> block, and the function with the dictionary of lines 105 to 109.\<close>

definition try_body_dict ::
  "('h, 'b, 'i, 'a) env \<Rightarrow> ('h \<Rightarrow> 'a \<Rightarrow> exn + item list) \<Rightarrow> string \<Rightarrow> 'h process
     \<Rightarrow> (exn + pydict) \<times> 'h process" where
  "try_body_dict env detect_items image_data_base64 st =
     (case run_detection_items env detect_items image_data_base64 st of
        (Inl e, st') \<Rightarrow> (Inl e, st')
      | (Inr detections, st') \<Rightarrow>
          (case aggregate_items Map.empty detections of
             Inl e \<Rightarrow> (Inl e, st')
           | Inr sc \<Rightarrow> (evaluate_dict sc, st')))"

definition check_image_content_dict ::
  "('h, 'b, 'i, 'a) env \<Rightarrow> ('h \<Rightarrow> 'a \<Rightarrow> exn + item list) \<Rightarrow> string \<Rightarrow> 'h process
     \<Rightarrow> pydict \<times> 'h process" where
  "check_image_content_dict env detect_items image_data_base64 st =
     (case try_body_dict env detect_items image_data_base64 st of
        (Inr v, st') \<Rightarrow> (v, st')
      | (Inl e, st') \<Rightarrow>
          ([''appropriate'' \<mapsto> PyBool False,
            ''scores'' \<mapsto> PyDict Map.empty,
            ''message'' \<mapsto> PyStr (''Content filtering error: '' @ str e)], st'))"

text \<open>
  The dictionary that \<^verbatim>\<open>main\<close> gives to \<^verbatim>\<open>json.dumps\<close>: the literal of lines 114 to
  118, or \<^verbatim>\<open>result\<close>.
\<close>

definition main_result ::
  "('h, 'b, 'i, 'a) env \<Rightarrow> ('h \<Rightarrow> 'a \<Rightarrow> exn + item list) \<Rightarrow> string list \<Rightarrow> 'h process
     \<Rightarrow> pydict" where
  "main_result env detect_items argv st =
     (if length argv \<noteq> 2 then
        [''appropriate'' \<mapsto> PyBool False,
         ''scores'' \<mapsto> PyDict Map.empty,
         ''message'' \<mapsto> PyStr ''Usage: python content-filter.py <base64_image_data>'']
      else fst (check_image_content_dict env detect_items (argv ! 1) st))"

text \<open>
  The dictionary of a verdict and the item of a detection, to compare the two forms of
  the script.
\<close>

definition verdict_dict :: "verdict \<Rightarrow> pydict" where
  "verdict_dict v =
     [''appropriate'' \<mapsto> PyBool (appropriate v),
      ''scores'' \<mapsto> scores_value (scores v),
      ''message'' \<mapsto> PyStr (message v)]"

definition detection_item :: "detection \<Rightarrow> item" where
  "detection_item d = \<lparr>item_class = Some (label d), item_score = Some (confidence d)\<rparr>"

section \<open>Floats and their formatting\<close>

text \<open>
  The two thresholds are the doubles nearest to one fifth and to three tenths: multiples
  of the spacing of the doubles in their range, within half that spacing of the decimal.
\<close>

lemma explicit_threshold_double:
  "explicit_threshold * 2 ^ 55 = 7205759403792794 \<and>
   1 / 5 < explicit_threshold \<and> explicit_threshold - 1 / 5 \<le> 1 / 2 ^ 56"
  by (simp add: explicit_threshold_def)

lemma suggestive_threshold_double:
  "suggestive_threshold * 2 ^ 54 = 5404319552844595 \<and>
   suggestive_threshold < 3 / 10 \<and> 3 / 10 - suggestive_threshold \<le> 1 / 2 ^ 55"
  by (simp add: suggestive_threshold_def)

text \<open>
  No double lies strictly between one fifth and the threshold: in this range the
  doubles are the multiples of \<open>2^-55\<close>. So the test
  \<^verbatim>\<open>scores.get(label, 0) > explicit_threshold\<close> differs from a comparison with one
  fifth for one confidence only, the double \<^verbatim>\<open>0.2\<close> itself, which is not over the
  threshold.
\<close>

lemma between_fifth_and_threshold:
  assumes "c = of_int k / 2 ^ 55" and "1 / 5 < c" and "c \<le> explicit_threshold"
  shows "c = explicit_threshold"
proof -
  from assms(1,2) have "(1 / 5 :: rat) * 2 ^ 55 < of_int k" by (simp add: field_simps)
  then have "(36028797018963968 :: rat) < 5 * of_int k" by simp
  then have "(36028797018963968 :: int) < 5 * k"
    by (simp only: of_int_less_iff [symmetric, where 'a = rat] of_int_mult of_int_numeral)
  then have lo: "7205759403792794 \<le> k" by arith
  from assms(1,3) have "of_int k \<le> (7205759403792794 :: rat)"
    by (simp add: explicit_threshold_def field_simps)
  then have hi: "k \<le> 7205759403792794" by linarith
  from lo hi have "k = 7205759403792794" by arith
  with assms(1) show ?thesis by (simp add: explicit_threshold_def)
qed

text \<open>
  The text \<^verbatim>\<open>f"{x:.2f}"\<close> of a confidence that is not negative is an integer part, a
  point and two digits, and the number it writes is within half a hundredth of \<open>x\<close>.
\<close>

lemma round_half_even_near: "\<bar>of_int (round_half_even x) - x\<bar> \<le> 1 / 2"
proof -
  have "of_int \<lfloor>x\<rfloor> \<le> x" "x < of_int \<lfloor>x\<rfloor> + 1" by linarith+
  then show ?thesis
    by (auto simp: round_half_even_def Let_def abs_le_iff)
qed

lemma round_half_even_nonneg: "0 \<le> x \<Longrightarrow> 0 \<le> round_half_even x"
  by (auto simp: round_half_even_def Let_def)

lemma format_2f_hundredths:
  assumes "0 \<le> x"
  shows "\<exists>n. format_2f x = decimal (n div 100) @ ''.'' @ [digit (n div 10), digit n] \<and>
             \<bar>of_nat n / 100 - x\<bar> \<le> 1 / 200"
proof -
  let ?n = "nat (round_half_even (x * 100))"
  from assms have "0 \<le> round_half_even (x * 100)" by (simp add: round_half_even_nonneg)
  then have "(of_nat ?n :: rat) = of_int (round_half_even (x * 100))" by simp
  with round_half_even_near [of "x * 100"] have "\<bar>of_nat ?n - x * 100\<bar> \<le> 1 / 2" by simp
  then have "\<bar>of_nat ?n / 100 - x\<bar> \<le> 1 / 200" by (simp add: abs_le_iff field_simps)
  moreover from assms
  have "format_2f x = decimal (?n div 100) @ ''.'' @ [digit (?n div 10), digit ?n]"
    by (simp add: format_2f_def Let_def)
  ultimately show ?thesis by blast
qed

lemma digit_is_digit: "digit d \<in> set ''0123456789''"
proof -
  have "d mod 10 < length ''0123456789''" by simp
  then show ?thesis unfolding digit_def by (rule nth_mem)
qed

text \<open>
  What the text of a confidence is, in terms that do not depend on how \<open>format_2f\<close>
  computes it: an integer part with no leading zero (or the single digit zero), a point
  and two digits; read as a decimal numeral, the digits write the number of hundredths
  nearest to \<open>x\<close>, the even one of the two when \<open>x\<close> is halfway.
\<close>

lemma of_char_digit: "of_char (digit d) = (48 + d mod 10 :: nat)"
proof -
  have "\<forall>k<10. of_char (''0123456789'' ! k) = (48 + k :: nat)"
    by (simp add: numeral_eq_Suc less_Suc_eq) 
  then show ?thesis by (simp add: digit_def)
qed

lemma digits_value_snoc:
  "foldl (\<lambda>a ch. 10 * a + (of_char ch - 48)) (0 :: nat) (cs @ [digit d]) =
     10 * foldl (\<lambda>a ch. 10 * a + (of_char ch - 48)) 0 cs + d mod 10"
  by (simp add: of_char_digit)

lemma digits_value_decimal:
  "foldl (\<lambda>a ch. 10 * a + (of_char ch - 48)) (0 :: nat) (decimal n) = n"
proof (induction n rule: decimal.induct)
  case (1 n)
  show ?case
  proof (cases "n < 10")
    case True
    then show ?thesis by (simp add: of_char_digit)
  next
    case False
    with "1" have "foldl (\<lambda>a ch. 10 * a + (of_char ch - 48)) (0 :: nat) (decimal (n div 10))
                     = n div 10" by simp
    with False show ?thesis
      by (subst decimal.simps) (simp add: of_char_digit del: decimal.simps)
  qed
qed

lemma decimal_digits: "set (decimal n) \<subseteq> set ''0123456789''"
proof (induction n rule: decimal.induct)
  case (1 n)
  show ?case
  proof (cases "n < 10")
    case True
    then show ?thesis using digit_is_digit [of n] by simp
  next
    case False
    with "1" have "set (decimal (n div 10)) \<subseteq> set ''0123456789''" by simp
    with False show ?thesis
      using digit_is_digit [of n] by (subst decimal.simps) (simp del: decimal.simps)
  qed
qed

lemma decimal_not_empty: "decimal n \<noteq> []"
  by (subst decimal.simps) simp

lemma digit_zero_iff: "digit d = CHR ''0'' \<longleftrightarrow> d mod 10 = 0"
proof -
  have "\<forall>k<10. (''0123456789'' ! k = CHR ''0'') = (k = 0)"
    by (simp add: numeral_eq_Suc less_Suc_eq)
  then show ?thesis by (simp add: digit_def)
qed

lemma decimal_leading: "0 < n \<Longrightarrow> hd (decimal n) \<noteq> CHR ''0''"
proof (induction n rule: decimal.induct)
  case (1 n)
  show ?case
  proof (cases "n < 10")
    case True
    with "1.prems" show ?thesis by (simp add: digit_zero_iff)
  next
    case False
    then have "0 < n div 10" by simp
    with "1.IH" False have "hd (decimal (n div 10)) \<noteq> CHR ''0''" by simp
    with False show ?thesis
      by (subst decimal.simps) (simp add: decimal_not_empty del: decimal.simps)
  qed
qed

lemma round_half_even_tie:
  assumes "\<bar>of_int (round_half_even y) - y\<bar> = 1 / 2"
  shows "even (round_half_even y)"
proof -
  let ?f = "\<lfloor>y\<rfloor>"
  let ?r = "y - of_int ?f"
  have fl: "of_int ?f \<le> y" "y < of_int ?f + 1" by linarith+
  show ?thesis
  proof (cases "?r < 1 / 2")
    case True
    then have "round_half_even y = ?f" by (simp add: round_half_even_def Let_def)
    with assms have "\<bar>of_int ?f - y\<bar> = 1 / 2" by simp
    with fl True have False by linarith
    then show ?thesis ..
  next
    case False
    show ?thesis
    proof (cases "1 / 2 < ?r")
      case True
      then have "round_half_even y = ?f + 1" by (simp add: round_half_even_def Let_def)
      with assms have "\<bar>of_int ?f + 1 - y\<bar> = 1 / 2" by simp
      with fl True have False by linarith
      then show ?thesis ..
    next
      case False
      with \<open>\<not> ?r < 1 / 2\<close> have "?r = 1 / 2" by simp
      then show ?thesis by (simp add: round_half_even_def Let_def)
    qed
  qed
qed

lemma format_2f_text:
  assumes "0 \<le> x"
  shows "\<exists>ip d1 d2 n.
           format_2f x = ip @ ''.'' @ [d1, d2] \<and>
           ip \<noteq> [] \<and> (ip = ''0'' \<or> hd ip \<noteq> CHR ''0'') \<and>
           set (ip @ [d1, d2]) \<subseteq> set ''0123456789'' \<and>
           foldl (\<lambda>a ch. 10 * a + (of_char ch - 48)) (0 :: nat) (ip @ [d1, d2]) = n \<and>
           \<bar>of_nat n / 100 - x\<bar> \<le> 1 / 200 \<and>
           (\<bar>of_nat n / 100 - x\<bar> = 1 / 200 \<longrightarrow> even n)"
proof -
  let ?n = "nat (round_half_even (x * 100))"
  let ?ip = "decimal (?n div 100)"
  from assms have nonneg: "0 \<le> round_half_even (x * 100)" by (simp add: round_half_even_nonneg)
  then have n: "(of_nat ?n :: rat) = of_int (round_half_even (x * 100))" by simp
  from assms have shape: "format_2f x = ?ip @ ''.'' @ [digit (?n div 10), digit ?n]"
    by (simp add: format_2f_def Let_def)
  have lead: "?ip = ''0'' \<or> hd ?ip \<noteq> CHR ''0''"
  proof (cases "?n div 100 = 0")
    case True
    then show ?thesis by (simp add: digit_def)
  next
    case False
    then have "0 < ?n div 100" by simp
    then show ?thesis by (simp only: decimal_leading simp_thms)
  qed
  have digits: "set (?ip @ [digit (?n div 10), digit ?n]) \<subseteq> set ''0123456789''"
    using decimal_digits [of "?n div 100"] digit_is_digit [of "?n div 10"] digit_is_digit [of ?n]
    by simp
  have "foldl (\<lambda>a ch. 10 * a + (of_char ch - 48)) (0 :: nat)
          (?ip @ [digit (?n div 10), digit ?n])
        = 10 * (10 * (?n div 100) + (?n div 10) mod 10) + ?n mod 10"
    using digits_value_decimal [of "?n div 100"]
    by (simp add: of_char_digit del: decimal.simps)
  also have "\<dots> = ?n"
  proof -
    have "?n div 100 = (?n div 10) div 10" by (simp add: div_mult2_eq)
    then show ?thesis by simp
  qed
  finally have val: "foldl (\<lambda>a ch. 10 * a + (of_char ch - 48)) (0 :: nat)
          (?ip @ [digit (?n div 10), digit ?n]) = ?n" .
  from round_half_even_near [of "x * 100"] n have "\<bar>of_nat ?n - x * 100\<bar> \<le> 1 / 2" by simp
  then have near: "\<bar>of_nat ?n / 100 - x\<bar> \<le> 1 / 200" by (simp add: abs_le_iff field_simps)
  have tie: "\<bar>of_nat ?n / 100 - x\<bar> = 1 / 200 \<longrightarrow> even ?n"
  proof
    assume "\<bar>of_nat ?n / 100 - x\<bar> = 1 / 200"
    then have "\<bar>of_nat ?n - x * 100\<bar> = 1 / 2" by (simp add: abs_if field_simps split: if_splits)
    with n have "even (round_half_even (x * 100))" by (simp add: round_half_even_tie)
    with nonneg show "even ?n" by (simp add: even_nat_iff)
  qed
  from shape lead digits val near tie decimal_not_empty [of "?n div 100"] show ?thesis by blast
qed

section \<open>Properties of the aggregation\<close>

lemma aggregate_foldl: "aggregate sc ds = Inr (foldl keep_max sc ds)"
  by (induction ds arbitrary: sc) (auto simp: keep_max_def get_def Let_def split: option.splits)

lemma py_max_max: "py_max a b = max a b"
  by (simp add: py_max_def max_def)

text \<open>
  The value the loop leaves at a label: the largest of the value it started with (zero for
  a new label) and the confidences of the detections carrying the label.
\<close>

lemma foldl_keep_max_at:
  "foldl keep_max sc ds l =
     (if l \<in> label ` set ds
      then Some (Max (insert (get sc l 0) (confidence ` {d \<in> set ds. label d = l})))
      else sc l)"
proof (induction ds rule: rev_induct)
  case Nil
  show ?case by simp
next
  case (snoc d ds)
  let ?S = "confidence ` {x \<in> set ds. label x = l}"
  have fin: "finite ?S" by simp
  show ?case
  proof (cases "label d = l")
    case False
    then have "{x \<in> set (ds @ [d]). label x = l} = {x \<in> set ds. label x = l}" by auto
    with False snoc show ?thesis by (auto simp: keep_max_def)
  next
    case True
    then have S: "confidence ` {x \<in> set (ds @ [d]). label x = l} = insert (confidence d) ?S"
      by auto
    have step: "foldl keep_max sc (ds @ [d]) l
                  = Some (py_max (get (foldl keep_max sc ds) l 0) (confidence d))"
      using True by (simp add: keep_max_def)
    show ?thesis
    proof (cases "l \<in> label ` set ds")
      case True
      with snoc have prev: "foldl keep_max sc ds l = Some (Max (insert (get sc l 0) ?S))"
        by simp
      note step
      also have "get (foldl keep_max sc ds) l 0 = Max (insert (get sc l 0) ?S)"
        unfolding get_def prev by simp
      also have "py_max (Max (insert (get sc l 0) ?S)) (confidence d)
                   = Max (insert (confidence d) (insert (get sc l 0) ?S))"
        using fin by (simp add: py_max_max max.commute)
      also have "insert (confidence d) (insert (get sc l 0) ?S)
                   = insert (get sc l 0) (confidence ` {x \<in> set (ds @ [d]). label x = l})"
        unfolding S by (rule insert_commute)
      finally show ?thesis
        using \<open>label d = l\<close> by simp
    next
      case False
      then have empty: "?S = {}" by auto
      from False snoc have prev: "foldl keep_max sc ds l = sc l"
        by simp
      note step
      also have "get (foldl keep_max sc ds) l 0 = get sc l 0"
        unfolding get_def prev by simp
      also have "py_max (get sc l 0) (confidence d)
                   = Max (insert (get sc l 0) (insert (confidence d) ?S))"
        unfolding empty by (simp add: py_max_max)
      finally show ?thesis
        using \<open>label d = l\<close> unfolding S by simp
    qed
  qed
qed

text \<open>The result depends on the set of detections only, not on their order or number.\<close>

lemma foldl_keep_max_set:
  "set ds' = set ds \<Longrightarrow> foldl keep_max sc ds' = foldl keep_max sc ds"
  by (rule ext) (simp add: foldl_keep_max_at)

lemma Max_insert_zero:
  assumes "finite S" "S \<noteq> {}" "\<forall>x\<in>S. (0::rat) \<le> x"
  shows "Max (insert 0 S) = Max S"
proof -
  from assms obtain a where "a \<in> S" "0 \<le> a" by blast
  with assms have "0 \<le> Max S" by (auto simp: Max_ge_iff)
  with assms show ?thesis by (simp add: max_def)
qed

text \<open>
  C4. The loop never raises. The value it leaves at a label is the largest of zero and
  the confidences of the detections carrying that label, and a label that no detection
  carries is not in the dictionary. For confidences that are not negative (the data
  model puts them in the unit interval) that value is the largest confidence among the
  detections carrying the label. Permuting the detections leaves the dictionary
  unchanged.
\<close>

theorem aggregate_max_order_independent:
  "(\<exists>sc. aggregate Map.empty ds = Inr sc \<and>
         (\<forall>l. sc l = (if l \<in> label ` set ds
                       then Some (Max (insert 0 (confidence ` {d \<in> set ds. label d = l})))
                       else None))) \<and>
   ((\<forall>d\<in>set ds. 0 \<le> confidence d) \<longrightarrow>
      (\<exists>sc. aggregate Map.empty ds = Inr sc \<and>
            (\<forall>l. sc l = (if l \<in> label ` set ds
                          then Some (Max (confidence ` {d \<in> set ds. label d = l}))
                          else None)))) \<and>
   (mset ds' = mset ds \<longrightarrow> aggregate Map.empty ds' = aggregate Map.empty ds)"
proof (intro conjI impI)
  show "\<exists>sc. aggregate Map.empty ds = Inr sc \<and>
         (\<forall>l. sc l = (if l \<in> label ` set ds
                       then Some (Max (insert 0 (confidence ` {d \<in> set ds. label d = l})))
                       else None))"
    by (simp add: aggregate_foldl foldl_keep_max_at get_def)
next
  assume nonneg: "\<forall>d\<in>set ds. 0 \<le> confidence d"
  have "foldl keep_max Map.empty ds l =
          (if l \<in> label ` set ds
           then Some (Max (confidence ` {d \<in> set ds. label d = l})) else None)" for l
  proof (cases "l \<in> label ` set ds")
    case False
    then show ?thesis by (simp add: foldl_keep_max_at)
  next
    case True
    let ?S = "confidence ` {d \<in> set ds. label d = l}"
    have "finite ?S" by simp
    moreover from True have "?S \<noteq> {}" by auto
    moreover have "\<forall>x\<in>?S. 0 \<le> x" using nonneg by auto
    ultimately have "Max (insert 0 ?S) = Max ?S" by (rule Max_insert_zero)
    with True show ?thesis by (simp add: foldl_keep_max_at get_def)
  qed
  then show "\<exists>sc. aggregate Map.empty ds = Inr sc \<and>
            (\<forall>l. sc l = (if l \<in> label ` set ds
                          then Some (Max (confidence ` {d \<in> set ds. label d = l}))
                          else None))"
    by (simp add: aggregate_foldl)
next
  assume "mset ds' = mset ds"
  then have "set ds' = set ds" by (rule mset_eq_setD)
  then have "foldl keep_max Map.empty ds' = foldl keep_max Map.empty ds"
    by (rule foldl_keep_max_set)
  then show "aggregate Map.empty ds' = aggregate Map.empty ds"
    by (simp only: aggregate_foldl)
qed

theorem aggregate_max_order_independent_witness:
  "list_all (\<lambda>d. 0 \<le> confidence d)
     [\<lparr>label = ''FACE_F'', confidence = 1 / 2\<rparr>,
      \<lparr>label = ''EXPOSED_BELLY'', confidence = 1 / 4\<rparr>,
      \<lparr>label = ''FACE_F'', confidence = 3 / 4\<rparr>] \<and>
   mset [\<lparr>label = ''FACE_F'', confidence = 3 / 4\<rparr>,
         \<lparr>label = ''FACE_F'', confidence = 1 / 2\<rparr>,
         \<lparr>label = ''EXPOSED_BELLY'', confidence = 1 / 4\<rparr>]
     = mset [\<lparr>label = ''FACE_F'', confidence = 1 / 2\<rparr>,
             \<lparr>label = ''EXPOSED_BELLY'', confidence = 1 / 4\<rparr>,
             \<lparr>label = ''FACE_F'', confidence = 3 / 4\<rparr>] \<and>
   aggregate Map.empty [\<lparr>label = ''FACE_F'', confidence = 3 / 4\<rparr>,
                        \<lparr>label = ''FACE_F'', confidence = 1 / 2\<rparr>,
                        \<lparr>label = ''EXPOSED_BELLY'', confidence = 1 / 4\<rparr>]
     = aggregate Map.empty [\<lparr>label = ''FACE_F'', confidence = 1 / 2\<rparr>,
                            \<lparr>label = ''EXPOSED_BELLY'', confidence = 1 / 4\<rparr>,
                            \<lparr>label = ''FACE_F'', confidence = 3 / 4\<rparr>] \<and>
   (\<exists>sc. aggregate Map.empty [\<lparr>label = ''FACE_F'', confidence = 1 / 2\<rparr>,
                               \<lparr>label = ''EXPOSED_BELLY'', confidence = 1 / 4\<rparr>,
                               \<lparr>label = ''FACE_F'', confidence = 3 / 4\<rparr>] = Inr sc \<and>
         sc ''FACE_F'' = Some (3 / 4) \<and> sc ''EXPOSED_BELLY'' = Some (1 / 4) \<and>
         sc ''FACE_M'' = None)"
  (is "?nonneg \<and> ?perm \<and> ?same \<and> ?vals")
proof -
  let ?ds = "[\<lparr>label = ''FACE_F'', confidence = 1 / 2\<rparr>,
              \<lparr>label = ''EXPOSED_BELLY'', confidence = 1 / 4\<rparr>,
              \<lparr>label = ''FACE_F'', confidence = 3 / 4\<rparr>]"
  let ?ds' = "[\<lparr>label = ''FACE_F'', confidence = 3 / 4\<rparr>,
               \<lparr>label = ''FACE_F'', confidence = 1 / 2\<rparr>,
               \<lparr>label = ''EXPOSED_BELLY'', confidence = 1 / 4\<rparr>]"
  note inst = aggregate_max_order_independent [of ?ds ?ds']
  have nonneg: ?nonneg by simp
  have perm: ?perm by simp
  from inst perm have same: ?same by blast
  have vals: ?vals
    by (simp add: py_max_def)
  from nonneg perm same vals show ?thesis by blast
qed

section \<open>Properties of the policy\<close>

lemma explicit_threshold_pos: "0 < explicit_threshold"
  by (simp add: explicit_threshold_def)

lemma over_threshold_present:
  "explicit_threshold < get sc l 0 \<Longrightarrow> sc l = Some (get sc l 0)"
  using explicit_threshold_pos by (cases "sc l") (auto simp: get_def)

lemma high_risk_loop_None:
  "high_risk_loop sc ls = None \<longleftrightarrow> (\<forall>l\<in>set ls. get sc l 0 \<le> explicit_threshold)"
  by (induction ls) (auto simp: not_less)

lemma high_risk_loop_first:
  assumes "\<exists>l\<in>set ls. explicit_threshold < get sc l 0"
  shows "\<exists>i<length ls.
           (\<forall>j<i. get sc (ls ! j) 0 \<le> explicit_threshold) \<and>
           explicit_threshold < get sc (ls ! i) 0 \<and>
           high_risk_loop sc ls =
             Some (Inr \<lparr>appropriate = False, scores = sc,
                        message = ''Inappropriate content detected: '' @ ls ! i
                          @ '' (confidence: '' @ format_2f (get sc (ls ! i) 0) @ '')''\<rparr>)"
  using assms
proof (induction ls)
  case Nil
  then show ?case by simp
next
  case (Cons l ls)
  show ?case
  proof (cases "explicit_threshold < get sc l 0")
    case True
    then have "sc l = Some (get sc l 0)" by (rule over_threshold_present)
    with True have "high_risk_loop sc (l # ls) =
             Some (Inr \<lparr>appropriate = False, scores = sc,
                        message = ''Inappropriate content detected: '' @ (l # ls) ! 0
                          @ '' (confidence: '' @ format_2f (get sc ((l # ls) ! 0) 0) @ '')''\<rparr>)"
      by simp
    with True show ?thesis by (intro exI [of _ 0]) simp
  next
    case False
    with Cons.prems have "\<exists>l\<in>set ls. explicit_threshold < get sc l 0" by auto
    from Cons.IH [OF this] obtain i where i: "i < length ls"
      "\<forall>j<i. get sc (ls ! j) 0 \<le> explicit_threshold"
      "explicit_threshold < get sc (ls ! i) 0"
      "high_risk_loop sc ls =
             Some (Inr \<lparr>appropriate = False, scores = sc,
                        message = ''Inappropriate content detected: '' @ ls ! i
                          @ '' (confidence: '' @ format_2f (get sc (ls ! i) 0) @ '')''\<rparr>)"
      by blast
    have "\<forall>j<Suc i. get sc ((l # ls) ! j) 0 \<le> explicit_threshold"
    proof (intro allI impI)
      fix j assume "j < Suc i"
      then show "get sc ((l # ls) ! j) 0 \<le> explicit_threshold"
        using False i(2) by (cases j) auto
    qed
    with i False show ?thesis by (intro exI [of _ "Suc i"]) simp
  qed
qed

text \<open>When no high-risk label is over the threshold the loop runs to its end.\<close>

lemma evaluate_accept:
  assumes "\<forall>l\<in>set high_risk_labels. get sc l 0 \<le> explicit_threshold"
  shows "evaluate sc = Inr \<lparr>appropriate = True, scores = sc,
                            message = ''Content appropriate for teen users''\<rparr>"
proof -
  from assms have "high_risk_loop sc high_risk_labels = None"
    by (simp only: high_risk_loop_None)
  then show ?thesis by (simp add: evaluate_def)
qed

lemma evaluate_reject:
  assumes "\<exists>l\<in>set high_risk_labels. explicit_threshold < get sc l 0"
  shows "\<exists>i<length high_risk_labels.
           (\<forall>j<i. get sc (high_risk_labels ! j) 0 \<le> explicit_threshold) \<and>
           explicit_threshold < get sc (high_risk_labels ! i) 0 \<and>
           evaluate sc =
             Inr \<lparr>appropriate = False, scores = sc,
                  message = ''Inappropriate content detected: '' @ high_risk_labels ! i
                    @ '' (confidence: '' @ format_2f (get sc (high_risk_labels ! i) 0) @ '')''\<rparr>"
proof -
  from high_risk_loop_first [OF assms] obtain i where i: "i < length high_risk_labels"
      "\<forall>j<i. get sc (high_risk_labels ! j) 0 \<le> explicit_threshold"
      "explicit_threshold < get sc (high_risk_labels ! i) 0"
      "high_risk_loop sc high_risk_labels =
         Some (Inr \<lparr>appropriate = False, scores = sc,
                    message = ''Inappropriate content detected: '' @ high_risk_labels ! i
                      @ '' (confidence: '' @ format_2f (get sc (high_risk_labels ! i) 0) @ '')''\<rparr>)"
    by blast
  from i(4) have "evaluate sc =
             Inr \<lparr>appropriate = False, scores = sc,
                  message = ''Inappropriate content detected: '' @ high_risk_labels ! i
                    @ '' (confidence: '' @ format_2f (get sc (high_risk_labels ! i) 0) @ '')''\<rparr>"
    by (simp only: evaluate_def option.case)
  with i(1-3) show ?thesis by blast
qed

lemma evaluate_total: "\<exists>v. evaluate sc = Inr v"
proof (cases "\<exists>l\<in>set high_risk_labels. explicit_threshold < get sc l 0")
  case True
  from evaluate_reject [OF this] show ?thesis by blast
next
  case False
  then have "\<forall>l\<in>set high_risk_labels. get sc l 0 \<le> explicit_threshold"
    by (simp add: not_less)
  from evaluate_accept [OF this] show ?thesis by blast
qed

lemma evaluate_cases:
  "(\<exists>i<length high_risk_labels.
      evaluate sc =
        Inr \<lparr>appropriate = False, scores = sc,
             message = ''Inappropriate content detected: '' @ high_risk_labels ! i
               @ '' (confidence: '' @ format_2f (get sc (high_risk_labels ! i) 0) @ '')''\<rparr>) \<or>
   evaluate sc =
     Inr \<lparr>appropriate = True, scores = sc, message = ''Content appropriate for teen users''\<rparr>"
proof (cases "\<exists>l\<in>set high_risk_labels. explicit_threshold < get sc l 0")
  case True
  from evaluate_reject [OF this] show ?thesis by blast
next
  case False
  then have "\<forall>l\<in>set high_risk_labels. get sc l 0 \<le> explicit_threshold"
    by (simp add: not_less)
  from evaluate_accept [OF this] show ?thesis by blast
qed

section \<open>Properties of the filter\<close>

lemma try_body_detections:
  assumes "run_detection env s st = (Inr ds, st')"
  shows "try_body env s st = (evaluate (foldl keep_max Map.empty ds), st')"
  using assms by (simp add: try_body_def aggregate_foldl)

lemma try_body_raises:
  assumes "run_detection env s st = (Inl e, st')"
  shows "try_body env s st = (Inl e, st')"
  using assms by (simp add: try_body_def)

lemma check_image_content_detections:
  assumes "run_detection env s st = (Inr ds, st')"
      and "evaluate (foldl keep_max Map.empty ds) = Inr v"
  shows "check_image_content env s st = (v, st')"
  using assms by (simp add: check_image_content_def try_body_detections)

lemma check_image_content_raises:
  assumes "try_body env s st = (Inl e, st')"
  shows "check_image_content env s st =
           (\<lparr>appropriate = False, scores = Map.empty,
             message = ''Content filtering error: '' @ str e\<rparr>, st')"
  using assms by (simp add: check_image_content_def)

lemma init_detector_raises_state:
  "init_detector env st = (Inl e, st') \<Longrightarrow> st' = st"
  by (auto simp: init_detector_def split: if_splits sum.splits)

lemma init_detector_success_handle:
  "init_detector env st = (Inr u, st') \<Longrightarrow> \<exists>h. detector st' = Some h"
  by (auto simp: init_detector_def split: if_splits sum.splits)

lemma init_detector_stdout: "stdout (snd (init_detector env st)) = stdout st"
  by (simp add: init_detector_def split: sum.splits)

lemma init_detector_stderr:
  "stderr (snd (init_detector env st)) =
     stderr st @
       (if DEPS_AVAILABLE env \<and> detector st = None \<and> \<not> isl (NudeDetector env)
        then [Text ''NudeNet detector initialized''] else [])"
  by (simp add: init_detector_def split: sum.splits)

lemma run_detection_state:
  "snd (run_detection env s st) = snd (init_detector env st)"
  by (simp add: run_detection_def split: prod.splits sum.splits)

lemma try_body_state:
  "snd (try_body env s st) = snd (init_detector env st)"
proof (cases "run_detection env s st")
  case (Pair r st')
  with run_detection_state [of env s st] have "snd (init_detector env st) = st'" by simp
  with Pair show ?thesis
    by (cases r) (simp_all add: try_body_def aggregate_foldl)
qed

lemma check_image_content_state:
  "snd (check_image_content env s st) = snd (init_detector env st)"
proof (cases "try_body env s st")
  case (Pair r st')
  with try_body_state [of env s st] have "snd (init_detector env st) = st'" by simp
  with Pair show ?thesis
    by (cases r) (simp_all add: check_image_content_def)
qed

lemma try_body_raises_iff:
  "fst (try_body env s st) = Inl e \<longleftrightarrow> fst (run_detection env s st) = Inl e"
proof (cases "run_detection env s st")
  case (Pair r st')
  show ?thesis
  proof (cases r)
    case (Inl e')
    with Pair show ?thesis by (simp add: try_body_def)
  next
    case (Inr ds)
    obtain v where "evaluate (foldl keep_max Map.empty ds) = Inr v"
      using evaluate_total by blast
    with Pair Inr show ?thesis by (simp add: try_body_def aggregate_foldl)
  qed
qed

lemma check_image_content_fail_closed:
  assumes "fst (run_detection env s st) = Inl e"
  shows "fst (check_image_content env s st) =
           \<lparr>appropriate = False, scores = Map.empty,
            message = ''Content filtering error: '' @ str e\<rparr>"
proof -
  from assms have "fst (try_body env s st) = Inl e" by (simp only: try_body_raises_iff)
  then show ?thesis
    by (cases "try_body env s st") (simp add: check_image_content_def)
qed

lemma init_detector_present:
  "detector st = Some h \<Longrightarrow> DEPS_AVAILABLE env \<Longrightarrow> init_detector env st = (Inr (), st)"
  by (simp add: init_detector_def)

lemma init_detector_keeps_handle:
  "detector st = Some h \<Longrightarrow> snd (init_detector env st) = st"
  by (simp add: init_detector_def)

lemma init_detector_success_deps:
  "init_detector env st = (Inr u, st') \<Longrightarrow> DEPS_AVAILABLE env"
  by (auto simp: init_detector_def split: if_splits)

lemma init_detector_idempotent:
  assumes "init_detector env st = (Inr (), st')"
  shows "init_detector env st' = (Inr (), st')"
proof -
  from assms obtain h where "detector st' = Some h"
    using init_detector_success_handle by blast
  moreover from assms have "DEPS_AVAILABLE env" by (rule init_detector_success_deps)
  ultimately show ?thesis by (rule init_detector_present)
qed

lemma init_detector_repeated:
  assumes "init_detector env st = (Inr (), st')"
  shows "((\<lambda>s. snd (init_detector env s)) ^^ n) st' = st'"
proof (induction n)
  case 0
  show ?case by simp
next
  case (Suc n)
  from assms have "snd (init_detector env st') = st'"
    by (simp add: init_detector_idempotent)
  with Suc show ?case by simp
qed

lemma main_usage:
  "length argv \<noteq> 2 \<Longrightarrow>
     main env argv st =
       (1, st\<lparr>stdout := stdout st @
                 [Json \<lparr>appropriate = False, scores = Map.empty,
                        message = ''Usage: python content-filter.py <base64_image_data>''\<rparr>]\<rparr>)"
  by (simp add: main_def)

lemma main_run:
  assumes "length argv = 2"
  shows "main env argv st =
           (0, (snd (check_image_content env (argv ! 1) st))
                 \<lparr>stdout := stdout st @ [Json (fst (check_image_content env (argv ! 1) st))]\<rparr>)"
proof (cases "check_image_content env (argv ! 1) st")
  case (Pair result st')
  with check_image_content_state [of env "argv ! 1" st] init_detector_stdout [of env st]
  have "stdout st' = stdout st" by simp
  with assms Pair show ?thesis by (simp add: main_def)
qed

lemma check_image_content_cases:
  "(\<exists>sc. \<exists>i<length high_risk_labels.
      fst (check_image_content env s st) =
        \<lparr>appropriate = False, scores = sc,
         message = ''Inappropriate content detected: '' @ high_risk_labels ! i
           @ '' (confidence: '' @ format_2f (get sc (high_risk_labels ! i) 0) @ '')''\<rparr>) \<or>
   (\<exists>sc. fst (check_image_content env s st) =
      \<lparr>appropriate = True, scores = sc, message = ''Content appropriate for teen users''\<rparr>) \<or>
   (\<exists>e. fst (check_image_content env s st) =
      \<lparr>appropriate = False, scores = Map.empty,
       message = ''Content filtering error: '' @ str e\<rparr>)"
proof (cases "run_detection env s st")
  case (Pair r st')
  show ?thesis
  proof (cases r)
    case (Inl e)
    with Pair have "fst (run_detection env s st) = Inl e" by simp
    from check_image_content_fail_closed [OF this] show ?thesis by blast
  next
    case (Inr ds)
    let ?sc = "foldl keep_max Map.empty ds"
    from Pair Inr have run: "run_detection env s st = (Inr ds, st')" by simp
    from evaluate_cases [of ?sc] show ?thesis
    proof
      assume "\<exists>i<length high_risk_labels.
      evaluate ?sc =
        Inr \<lparr>appropriate = False, scores = ?sc,
             message = ''Inappropriate content detected: '' @ high_risk_labels ! i
               @ '' (confidence: '' @ format_2f (get ?sc (high_risk_labels ! i) 0) @ '')''\<rparr>"
      then obtain i where i: "i < length high_risk_labels"
        "evaluate ?sc =
        Inr \<lparr>appropriate = False, scores = ?sc,
             message = ''Inappropriate content detected: '' @ high_risk_labels ! i
               @ '' (confidence: '' @ format_2f (get ?sc (high_risk_labels ! i) 0) @ '')''\<rparr>"
        by blast
      from check_image_content_detections [OF run i(2)] i(1) show ?thesis
        by (intro disjI1 exI [of _ ?sc] exI [of _ i]) simp
    next
      assume "evaluate ?sc =
        Inr \<lparr>appropriate = True, scores = ?sc,
             message = ''Content appropriate for teen users''\<rparr>"
      from check_image_content_detections [OF run this] show ?thesis
        by (intro disjI2 disjI1 exI [of _ ?sc]) simp
    qed
  qed
qed

lemma check_image_content_message: "message (fst (check_image_content env s st)) \<noteq> []"
  using check_image_content_cases [of env s st] by auto

lemma positional_arguments: "length (tl argv) = 1 \<longleftrightarrow> length argv = 2"
  by (cases argv) auto

section \<open>Properties of the script on dictionaries\<close>

text \<open>
  When every item of the detector carries both keys, the script on dictionaries
  returns the dictionary of the verdict computed above. An item that lacks a key makes
  the aggregation raise \<^verbatim>\<open>KeyError\<close> at the first such item, and the filter then
  returns the dictionary of lines 105 to 109.
\<close>

lemma aggregate_items_complete:
  "aggregate_items sc (map detection_item ds) = aggregate sc ds"
  by (induction ds arbitrary: sc) (auto simp: detection_item_def Let_def split: option.splits)

lemma verdict_dict_literal:
  "verdict_dict \<lparr>appropriate = a, scores = sc, message = m\<rparr> =
     [''appropriate'' \<mapsto> PyBool a, ''scores'' \<mapsto> scores_value sc, ''message'' \<mapsto> PyStr m]"
  by (simp add: verdict_dict_def)

lemma high_risk_loop_dict_verdict:
  "high_risk_loop_dict sc ls = map_option (map_sum id verdict_dict) (high_risk_loop sc ls)"
  by (induction ls) (simp_all add: verdict_dict_literal split: option.splits)

lemma evaluate_dict_verdict: "evaluate_dict sc = map_sum id verdict_dict (evaluate sc)"
  by (simp add: evaluate_dict_def evaluate_def high_risk_loop_dict_verdict verdict_dict_literal
      split: option.splits)

lemma run_detection_items_complete:
  "run_detection_items env (\<lambda>h a. map_sum id (map detection_item) (detect env h a)) s st =
     (map_sum id (map detection_item) (fst (run_detection env s st)),
      snd (run_detection env s st))"
  by (simp add: run_detection_items_def run_detection_def split: prod.splits sum.splits option.splits)

lemma try_body_dict_complete:
  "try_body_dict env (\<lambda>h a. map_sum id (map detection_item) (detect env h a)) s st =
     (map_sum id verdict_dict (fst (try_body env s st)), snd (try_body env s st))"
  by (cases "run_detection env s st")
    (auto simp: try_body_dict_def try_body_def run_detection_items_complete
      aggregate_items_complete evaluate_dict_verdict split: sum.splits)

lemma check_image_content_dict_complete:
  "check_image_content_dict env (\<lambda>h a. map_sum id (map detection_item) (detect env h a)) s st =
     (verdict_dict (fst (check_image_content env s st)), snd (check_image_content env s st))"
  by (cases "try_body env s st")
    (auto simp: check_image_content_dict_def check_image_content_def try_body_dict_complete
      verdict_dict_literal scores_value_def split: sum.splits)

lemma aggregate_items_find:
  "aggregate_items sc items =
     (case find (\<lambda>d. item_class d = None \<or> item_score d = None) items of
        Some d \<Rightarrow> Inl (KeyError (if item_class d = None then ''class'' else ''score''))
      | None \<Rightarrow>
          Inr (foldl keep_max sc
                (map (\<lambda>d. \<lparr>label = the (item_class d), confidence = the (item_score d)\<rparr>)
                   items)))"
  by (induction items arbitrary: sc)
    (auto simp: keep_max_def get_def Let_def split: option.splits)

lemma try_body_dict_raises:
  assumes "fst (try_body_dict env di s st) = Inl e"
  shows "fst (check_image_content_dict env di s st) =
           [''appropriate'' \<mapsto> PyBool False, ''scores'' \<mapsto> PyDict Map.empty,
            ''message'' \<mapsto> PyStr (''Content filtering error: '' @ str e)]"
  using assms by (cases "try_body_dict env di s st") (auto simp: check_image_content_dict_def)

lemma aggregate_items_fail_closed:
  assumes "fst (run_detection_items env di s st) = Inr items"
      and "aggregate_items Map.empty items = Inl e"
  shows "fst (check_image_content_dict env di s st) =
           [''appropriate'' \<mapsto> PyBool False, ''scores'' \<mapsto> PyDict Map.empty,
            ''message'' \<mapsto> PyStr (''Content filtering error: '' @ str e)]"
proof -
  from assms have "fst (try_body_dict env di s st) = Inl e"
    by (cases "run_detection_items env di s st") (simp add: try_body_dict_def)
  then show ?thesis by (rule try_body_dict_raises)
qed

lemma scores_value_empty: "scores_value Map.empty = PyDict Map.empty"
  by (simp add: scores_value_def)

lemma dom_three_keys:
  "dom [''appropriate'' \<mapsto> x, ''scores'' \<mapsto> y, ''message'' \<mapsto> z] =
     {''appropriate'', ''scores'', ''message''}"
  by auto

lemma evaluate_dict_cases:
  "(\<exists>i<length high_risk_labels.
      evaluate_dict sc =
        Inr [''appropriate'' \<mapsto> PyBool False, ''scores'' \<mapsto> scores_value sc,
             ''message'' \<mapsto> PyStr (''Inappropriate content detected: '' @ high_risk_labels ! i
               @ '' (confidence: '' @ format_2f (get sc (high_risk_labels ! i) 0) @ '')'')]) \<or>
   evaluate_dict sc =
     Inr [''appropriate'' \<mapsto> PyBool True, ''scores'' \<mapsto> scores_value sc,
          ''message'' \<mapsto> PyStr ''Content appropriate for teen users'']"
  using evaluate_cases [of sc]
  by (auto simp: evaluate_dict_verdict verdict_dict_literal)

lemma check_image_content_dict_cases:
  "(\<exists>sc. \<exists>i<length high_risk_labels.
      fst (check_image_content_dict env detect_items s st) =
        [''appropriate'' \<mapsto> PyBool False, ''scores'' \<mapsto> scores_value sc,
         ''message'' \<mapsto> PyStr (''Inappropriate content detected: '' @ high_risk_labels ! i
           @ '' (confidence: '' @ format_2f (get sc (high_risk_labels ! i) 0) @ '')'')]) \<or>
   (\<exists>sc. fst (check_image_content_dict env detect_items s st) =
      [''appropriate'' \<mapsto> PyBool True, ''scores'' \<mapsto> scores_value sc,
       ''message'' \<mapsto> PyStr ''Content appropriate for teen users'']) \<or>
   (\<exists>e. fst (check_image_content_dict env detect_items s st) =
      [''appropriate'' \<mapsto> PyBool False, ''scores'' \<mapsto> PyDict Map.empty,
       ''message'' \<mapsto> PyStr (''Content filtering error: '' @ str e)])"
  (is "?rej \<or> ?acc \<or> ?err")
proof (cases "fst (try_body_dict env detect_items s st)")
  case (Inl e)
  then have ?err by (blast intro: try_body_dict_raises)
  then show ?thesis by blast
next
  case (Inr d)
  then obtain sc where ev: "evaluate_dict sc = Inr d"
    by (cases "run_detection_items env detect_items s st")
      (auto simp: try_body_dict_def split: sum.splits)
  from Inr have res: "fst (check_image_content_dict env detect_items s st) = d"
    by (cases "try_body_dict env detect_items s st") (simp add: check_image_content_dict_def)
  from evaluate_dict_cases [of sc] ev res show ?thesis by auto
qed

lemma check_image_content_dict_shape:
  "\<exists>a sc m.
     fst (check_image_content_dict env detect_items s st) =
       [''appropriate'' \<mapsto> PyBool a,
        ''scores'' \<mapsto> PyDict (\<lambda>l. map_option PyNumber (sc l)),
        ''message'' \<mapsto> PyStr m] \<and>
     m \<noteq> []"
proof -
  have empty: "PyDict Map.empty = PyDict (\<lambda>l. map_option PyNumber (Map.empty l))"
    by simp
  from check_image_content_dict_cases [of env detect_items s st] show ?thesis
    unfolding scores_value_def empty by (elim disjE exE conjE) (rule exI, rule exI, rule exI, rule conjI, assumption, simp)+
qed

lemma main_result_cases:
  "main_result env detect_items argv st =
     [''appropriate'' \<mapsto> PyBool False, ''scores'' \<mapsto> PyDict Map.empty,
      ''message'' \<mapsto> PyStr ''Usage: python content-filter.py <base64_image_data>''] \<or>
   main_result env detect_items argv st =
     fst (check_image_content_dict env detect_items (argv ! 1) st)"
  by (simp add: main_result_def)

lemma main_result_shape:
  "\<exists>a sc m.
     main_result env detect_items argv st =
       [''appropriate'' \<mapsto> PyBool a,
        ''scores'' \<mapsto> PyDict (\<lambda>l. map_option PyNumber (sc l)),
        ''message'' \<mapsto> PyStr m] \<and>
     m \<noteq> []"
proof (cases "length argv = 2")
  case True
  then have "main_result env detect_items argv st =
      fst (check_image_content_dict env detect_items (argv ! 1) st)"
    by (simp add: main_result_def)
  with check_image_content_dict_shape [of env detect_items "argv ! 1" st] show ?thesis
    by simp
next
  case False
  then have "main_result env detect_items argv st =
     [''appropriate'' \<mapsto> PyBool False,
      ''scores'' \<mapsto> PyDict (\<lambda>l. map_option PyNumber (Map.empty l)),
      ''message'' \<mapsto> PyStr ''Usage: python content-filter.py <base64_image_data>'']"
    by (simp add: main_result_def)
  then show ?thesis by (intro exI conjI) (assumption, simp)
qed

lemma main_result_printed:
  "\<exists>v. stdout (snd (main env argv st)) = stdout st @ [Json v] \<and>
       verdict_dict v =
         main_result env (\<lambda>h a. map_sum id (map detection_item) (detect env h a)) argv st"
proof (cases "length argv = 2")
  case True
  then show ?thesis
    by (intro exI [of _ "fst (check_image_content env (argv ! 1) st)"])
      (simp add: main_run main_result_def check_image_content_dict_complete)
next
  case False
  then show ?thesis
    by (intro exI [of _ "\<lparr>appropriate = False, scores = Map.empty,
              message = ''Usage: python content-filter.py <base64_image_data>''\<rparr>"])
      (simp add: main_usage main_result_def verdict_dict_literal scores_value_empty)
qed

section \<open>The verdicts\<close>

lemma format_2f_quarter: "format_2f (1 / 4) = ''0.25''"
  by (simp add: format_2f_def round_half_even_def digit_def Let_def)

lemma format_2f_seven_eighths: "format_2f (7 / 8) = ''0.88''"
proof -
  have "\<lfloor>175 / 2 :: rat\<rfloor> = 87" by (simp add: floor_eq_iff)
  then show ?thesis
    by (simp add: format_2f_def round_half_even_def digit_def Let_def)
qed

text \<open>
  C1. When decoding and detection succeed and, in the aggregated dictionary, some
  high-risk label has a confidence strictly above \<open>explicit_threshold\<close> (the float
  \<^verbatim>\<open>0.2\<close>), the filter returns \<open>appropriate = False\<close> with the whole aggregated
  dictionary as \<open>scores\<close>, and the message names the first such label in the order of
  \<open>high_risk_labels\<close> with its confidence written with two decimals: an integer part,
  a point and two digits, which write the number of hundredths nearest to the
  confidence (the even one when it is halfway between two).
\<close>

theorem high_risk_label_rejected:
  assumes "run_detection env image_data_base64 st = (Inr detections, st')"
      and "aggregate Map.empty detections = Inr sc"
      and "\<exists>l\<in>set high_risk_labels. explicit_threshold < get sc l 0"
  shows "\<exists>i<length high_risk_labels.
           (\<forall>j<i. get sc (high_risk_labels ! j) 0 \<le> explicit_threshold) \<and>
           explicit_threshold < get sc (high_risk_labels ! i) 0 \<and>
           check_image_content env image_data_base64 st =
             (\<lparr>appropriate = False, scores = sc,
               message = ''Inappropriate content detected: '' @ high_risk_labels ! i
                 @ '' (confidence: '' @ format_2f (get sc (high_risk_labels ! i) 0) @ '')''\<rparr>,
              st') \<and>
           (\<exists>ip d1 d2 n.
              format_2f (get sc (high_risk_labels ! i) 0) = ip @ ''.'' @ [d1, d2] \<and>
              ip \<noteq> [] \<and> (ip = ''0'' \<or> hd ip \<noteq> CHR ''0'') \<and>
              set (ip @ [d1, d2]) \<subseteq> set ''0123456789'' \<and>
              foldl (\<lambda>a ch. 10 * a + (of_char ch - 48)) (0 :: nat) (ip @ [d1, d2]) = n \<and>
              \<bar>of_nat n / 100 - get sc (high_risk_labels ! i) 0\<bar> \<le> 1 / 200 \<and>
              (\<bar>of_nat n / 100 - get sc (high_risk_labels ! i) 0\<bar> = 1 / 200 \<longrightarrow> even n))"
proof -
  from assms(2) have sc: "foldl keep_max Map.empty detections = sc"
    by (simp add: aggregate_foldl)
  from evaluate_reject [OF assms(3)] obtain i where i: "i < length high_risk_labels"
      "\<forall>j<i. get sc (high_risk_labels ! j) 0 \<le> explicit_threshold"
      "explicit_threshold < get sc (high_risk_labels ! i) 0"
      "evaluate sc =
         Inr \<lparr>appropriate = False, scores = sc,
              message = ''Inappropriate content detected: '' @ high_risk_labels ! i
                @ '' (confidence: '' @ format_2f (get sc (high_risk_labels ! i) 0) @ '')''\<rparr>"
    by blast
  from assms(1) i(4) have verdict: "check_image_content env image_data_base64 st =
             (\<lparr>appropriate = False, scores = sc,
               message = ''Inappropriate content detected: '' @ high_risk_labels ! i
                 @ '' (confidence: '' @ format_2f (get sc (high_risk_labels ! i) 0) @ '')''\<rparr>,
              st')"
    unfolding sc [symmetric] by (rule check_image_content_detections)
  from i(3) explicit_threshold_pos have "0 \<le> get sc (high_risk_labels ! i) 0" by simp
  from format_2f_text [OF this] i(1-3) verdict show ?thesis by blast
qed

theorem high_risk_label_rejected_witness:
  "run_detection
     \<lparr>DEPS_AVAILABLE = True, IMPORT_ERROR = [],
        NudeDetector = Inr (0 :: nat),
        b64decode = (\<lambda>s. Inr s), Image_open = (\<lambda>b. Inr b),
        mode = (\<lambda>i. ''RGB''), convert = (\<lambda>i m. Inr i),
        np_array = (\<lambda>i. Inr i),
        detect = (\<lambda>h a. Inr [\<lparr>label = ''EXPOSED_GENITALIA_M'', confidence = 1 / 2\<rparr>,
                                 \<lparr>label = ''EXPOSED_BUTTOCKS'', confidence = 1 / 4\<rparr>])\<rparr>
     ''aGk='' \<lparr>detector = None, stdout = [], stderr = []\<rparr>
     = (Inr [\<lparr>label = ''EXPOSED_GENITALIA_M'', confidence = 1 / 2\<rparr>,
          \<lparr>label = ''EXPOSED_BUTTOCKS'', confidence = 1 / 4\<rparr>],
        \<lparr>detector = Some 0, stdout = [],
        stderr = [Text ''NudeNet detector initialized'']\<rparr>) \<and>
   aggregate Map.empty [\<lparr>label = ''EXPOSED_GENITALIA_M'', confidence = 1 / 2\<rparr>,
          \<lparr>label = ''EXPOSED_BUTTOCKS'', confidence = 1 / 4\<rparr>]
     = Inr [''EXPOSED_GENITALIA_M'' \<mapsto> 1 / 2, ''EXPOSED_BUTTOCKS'' \<mapsto> 1 / 4] \<and>
   explicit_threshold
     < get [''EXPOSED_GENITALIA_M'' \<mapsto> 1 / 2, ''EXPOSED_BUTTOCKS'' \<mapsto> 1 / 4] ''EXPOSED_GENITALIA_M'' 0 \<and>
   check_image_content
     \<lparr>DEPS_AVAILABLE = True, IMPORT_ERROR = [],
        NudeDetector = Inr (0 :: nat),
        b64decode = (\<lambda>s. Inr s), Image_open = (\<lambda>b. Inr b),
        mode = (\<lambda>i. ''RGB''), convert = (\<lambda>i m. Inr i),
        np_array = (\<lambda>i. Inr i),
        detect = (\<lambda>h a. Inr [\<lparr>label = ''EXPOSED_GENITALIA_M'', confidence = 1 / 2\<rparr>,
                                 \<lparr>label = ''EXPOSED_BUTTOCKS'', confidence = 1 / 4\<rparr>])\<rparr>
     ''aGk='' \<lparr>detector = None, stdout = [], stderr = []\<rparr>
     = (\<lparr>appropriate = False,
         scores = [''EXPOSED_GENITALIA_M'' \<mapsto> 1 / 2, ''EXPOSED_BUTTOCKS'' \<mapsto> 1 / 4],
         message = ''Inappropriate content detected: EXPOSED_BUTTOCKS (confidence: 0.25)''\<rparr>,
        \<lparr>detector = Some 0, stdout = [],
        stderr = [Text ''NudeNet detector initialized'']\<rparr>) \<and>
   run_detection
     \<lparr>DEPS_AVAILABLE = True, IMPORT_ERROR = [],
        NudeDetector = Inr (0 :: nat),
        b64decode = (\<lambda>s. Inr s), Image_open = (\<lambda>b. Inr b),
        mode = (\<lambda>i. ''RGB''), convert = (\<lambda>i m. Inr i),
        np_array = (\<lambda>i. Inr i),
        detect = (\<lambda>h a. Inr [\<lparr>label = ''EXPOSED_ANUS'', confidence = 7 / 8\<rparr>,
                                 \<lparr>label = ''FACE_M'', confidence = 1 / 8\<rparr>])\<rparr>
     ''aGk='' \<lparr>detector = None, stdout = [], stderr = []\<rparr>
     = (Inr [\<lparr>label = ''EXPOSED_ANUS'', confidence = 7 / 8\<rparr>,
          \<lparr>label = ''FACE_M'', confidence = 1 / 8\<rparr>],
        \<lparr>detector = Some 0, stdout = [],
        stderr = [Text ''NudeNet detector initialized'']\<rparr>) \<and>
   aggregate Map.empty [\<lparr>label = ''EXPOSED_ANUS'', confidence = 7 / 8\<rparr>,
          \<lparr>label = ''FACE_M'', confidence = 1 / 8\<rparr>]
     = Inr [''EXPOSED_ANUS'' \<mapsto> 7 / 8, ''FACE_M'' \<mapsto> 1 / 8] \<and>
   explicit_threshold
     < get [''EXPOSED_ANUS'' \<mapsto> 7 / 8, ''FACE_M'' \<mapsto> 1 / 8] ''EXPOSED_ANUS'' 0 \<and>
   check_image_content
     \<lparr>DEPS_AVAILABLE = True, IMPORT_ERROR = [],
        NudeDetector = Inr (0 :: nat),
        b64decode = (\<lambda>s. Inr s), Image_open = (\<lambda>b. Inr b),
        mode = (\<lambda>i. ''RGB''), convert = (\<lambda>i m. Inr i),
        np_array = (\<lambda>i. Inr i),
        detect = (\<lambda>h a. Inr [\<lparr>label = ''EXPOSED_ANUS'', confidence = 7 / 8\<rparr>,
                                 \<lparr>label = ''FACE_M'', confidence = 1 / 8\<rparr>])\<rparr>
     ''aGk='' \<lparr>detector = None, stdout = [], stderr = []\<rparr>
     = (\<lparr>appropriate = False,
         scores = [''EXPOSED_ANUS'' \<mapsto> 7 / 8, ''FACE_M'' \<mapsto> 1 / 8],
         message = ''Inappropriate content detected: EXPOSED_ANUS (confidence: 0.88)''\<rparr>,
        \<lparr>detector = Some 0, stdout = [],
        stderr = [Text ''NudeNet detector initialized'']\<rparr>)"
  (is "run_detection ?env ?s ?st = (Inr ?ds, ?st') \<and> aggregate Map.empty ?ds = Inr ?sc \<and>
         ?over \<and> ?verdict \<and>
       run_detection ?env2 ?s ?st = (Inr ?ds2, ?st') \<and> aggregate Map.empty ?ds2 = Inr ?sc2 \<and>
         ?over2 \<and> ?verdict2")
proof -
  have run: "run_detection ?env ?s ?st = (Inr ?ds, ?st')"
    by (simp add: run_detection_def init_detector_def)
  have agg: "aggregate Map.empty ?ds = Inr ?sc"
    by (simp add: py_max_def)
  have over: ?over
    by (simp add: get_def explicit_threshold_def)
  then have some: "\<exists>l\<in>set high_risk_labels. explicit_threshold < get ?sc l 0"
    by (simp add: high_risk_labels_def)
  from high_risk_label_rejected [OF run agg some]
  obtain i where i: "i < length high_risk_labels"
      "\<forall>j<i. get ?sc (high_risk_labels ! j) 0 \<le> explicit_threshold"
      "explicit_threshold < get ?sc (high_risk_labels ! i) 0"
      "check_image_content ?env ?s ?st =
         (\<lparr>appropriate = False, scores = ?sc,
           message = ''Inappropriate content detected: '' @ high_risk_labels ! i
             @ '' (confidence: '' @ format_2f (get ?sc (high_risk_labels ! i) 0) @ '')''\<rparr>,
          ?st')"
    by blast
  have "i \<noteq> 0"
  proof
    assume "i = 0"
    with i(3) show False
      by (simp add: high_risk_labels_def get_def explicit_threshold_def)
  qed
  moreover have "\<not> 1 < i"
  proof
    assume "1 < i"
    with i(2) have "get ?sc (high_risk_labels ! 1) 0 \<le> explicit_threshold" by blast
    then show False
      by (simp add: high_risk_labels_def get_def explicit_threshold_def)
  qed
  ultimately have "i = 1" by arith
  with i(4) have verdict: ?verdict
    by (simp add: high_risk_labels_def get_def format_2f_quarter)
  have run2: "run_detection ?env2 ?s ?st = (Inr ?ds2, ?st')"
    by (simp add: run_detection_def init_detector_def)
  have agg2: "aggregate Map.empty ?ds2 = Inr ?sc2"
    by (simp add: py_max_def)
  have over2: ?over2
    by (simp add: get_def explicit_threshold_def)
  then have some2: "\<exists>l\<in>set high_risk_labels. explicit_threshold < get ?sc2 l 0"
    by (simp add: high_risk_labels_def)
  from high_risk_label_rejected [OF run2 agg2 some2]
  obtain k where k: "k < length high_risk_labels"
      "\<forall>j<k. get ?sc2 (high_risk_labels ! j) 0 \<le> explicit_threshold"
      "check_image_content ?env2 ?s ?st =
         (\<lparr>appropriate = False, scores = ?sc2,
           message = ''Inappropriate content detected: '' @ high_risk_labels ! k
             @ '' (confidence: '' @ format_2f (get ?sc2 (high_risk_labels ! k) 0) @ '')''\<rparr>,
          ?st')"
    by blast
  have "\<not> 0 < k"
  proof
    assume "0 < k"
    with k(2) have "get ?sc2 (high_risk_labels ! 0) 0 \<le> explicit_threshold" by blast
    then show False
      by (simp add: high_risk_labels_def get_def explicit_threshold_def)
  qed
  then have "k = 0" by simp
  with k(3) have verdict2: ?verdict2
    by (simp add: high_risk_labels_def get_def format_2f_seven_eighths)
  from run agg over verdict run2 agg2 over2 verdict2 show ?thesis by (intro conjI)
qed

text \<open>
  C3. When decoding and detection succeed and every high-risk label has a confidence of
  at most \<open>explicit_threshold\<close> in the aggregated dictionary, the filter returns
  \<open>appropriate = True\<close>, whatever the confidences of the other labels: the
  moderate-risk check is not part of the code that runs.
\<close>

theorem high_risk_ok_appropriate:
  assumes "run_detection env image_data_base64 st = (Inr detections, st')"
      and "aggregate Map.empty detections = Inr sc"
      and "\<forall>l\<in>set high_risk_labels. get sc l 0 \<le> explicit_threshold"
  shows "check_image_content env image_data_base64 st =
           (\<lparr>appropriate = True, scores = sc,
             message = ''Content appropriate for teen users''\<rparr>, st')"
proof -
  from assms(2) have sc: "foldl keep_max Map.empty detections = sc"
    by (simp add: aggregate_foldl)
  from assms(1) evaluate_accept [OF assms(3)] show ?thesis
    unfolding sc [symmetric] by (rule check_image_content_detections)
qed

theorem high_risk_ok_appropriate_witness:
  "run_detection
     \<lparr>DEPS_AVAILABLE = True, IMPORT_ERROR = [],
        NudeDetector = Inr (0 :: nat),
        b64decode = (\<lambda>s. Inr s), Image_open = (\<lambda>b. Inr b),
        mode = (\<lambda>i. ''RGB''), convert = (\<lambda>i m. Inr i),
        np_array = (\<lambda>i. Inr i),
        detect = (\<lambda>h a. Inr [\<lparr>label = ''EXPOSED_ARMPITS'',
            confidence = 4278419646001971 / 4503599627370496\<rparr>])\<rparr>
     ''aGk='' \<lparr>detector = None, stdout = [], stderr = []\<rparr>
     = (Inr [\<lparr>label = ''EXPOSED_ARMPITS'',
            confidence = 4278419646001971 / 4503599627370496\<rparr>],
        \<lparr>detector = Some 0, stdout = [],
        stderr = [Text ''NudeNet detector initialized'']\<rparr>) \<and>
   aggregate Map.empty [\<lparr>label = ''EXPOSED_ARMPITS'',
            confidence = 4278419646001971 / 4503599627370496\<rparr>]
     = Inr [''EXPOSED_ARMPITS'' \<mapsto> 4278419646001971 / 4503599627370496] \<and>
   list_all (\<lambda>l. get [''EXPOSED_ARMPITS'' \<mapsto> 4278419646001971 / 4503599627370496] l 0 \<le> explicit_threshold) high_risk_labels \<and>
   explicit_threshold < get [''EXPOSED_ARMPITS'' \<mapsto> 4278419646001971 / 4503599627370496] ''EXPOSED_ARMPITS'' 0 \<and>
   suggestive_threshold < get [''EXPOSED_ARMPITS'' \<mapsto> 4278419646001971 / 4503599627370496] ''EXPOSED_ARMPITS'' 0 \<and>
   check_image_content
     \<lparr>DEPS_AVAILABLE = True, IMPORT_ERROR = [],
        NudeDetector = Inr (0 :: nat),
        b64decode = (\<lambda>s. Inr s), Image_open = (\<lambda>b. Inr b),
        mode = (\<lambda>i. ''RGB''), convert = (\<lambda>i m. Inr i),
        np_array = (\<lambda>i. Inr i),
        detect = (\<lambda>h a. Inr [\<lparr>label = ''EXPOSED_ARMPITS'',
            confidence = 4278419646001971 / 4503599627370496\<rparr>])\<rparr>
     ''aGk='' \<lparr>detector = None, stdout = [], stderr = []\<rparr>
     = (\<lparr>appropriate = True,
         scores = [''EXPOSED_ARMPITS'' \<mapsto> 4278419646001971 / 4503599627370496],
         message = ''Content appropriate for teen users''\<rparr>,
        \<lparr>detector = Some 0, stdout = [],
        stderr = [Text ''NudeNet detector initialized'']\<rparr>)"
  (is "run_detection ?env ?s ?st = (Inr ?ds, ?st') \<and> aggregate Map.empty ?ds = Inr ?sc \<and>
         ?low \<and> ?over \<and> ?over' \<and> ?verdict")
proof -
  have run: "run_detection ?env ?s ?st = (Inr ?ds, ?st')"
    by (simp add: run_detection_def init_detector_def)
  have agg: "aggregate Map.empty ?ds = Inr ?sc"
    by (simp add: py_max_def)
  have low: "\<forall>l\<in>set high_risk_labels. get ?sc l 0 \<le> explicit_threshold"
    by (simp add: high_risk_labels_def get_def explicit_threshold_def)
  then have low': ?low by (simp add: list_all_iff)
  have over: ?over by (simp add: get_def explicit_threshold_def)
  have over': ?over' by (simp add: get_def suggestive_threshold_def)
  from high_risk_ok_appropriate [OF run agg low] have ?verdict .
  with run agg low' over over' show ?thesis by blast
qed

text \<open>
  C6. For the detections \<^verbatim>\<open>EXPOSED_BREAST_F\<close> at 0.25 and \<^verbatim>\<open>FACE_F\<close> at 0.9 (the
  double nearest to nine tenths), the scores are those two entries and the verdict is
  \<open>appropriate = False\<close> with a message that names
  \<^verbatim>\<open>EXPOSED_BREAST_F (confidence: 0.25)\<close>.
\<close>

theorem example_breast_and_face:
  assumes "run_detection env image_data_base64 st =
             (Inr [\<lparr>label = ''EXPOSED_BREAST_F'', confidence = 1 / 4\<rparr>,
                   \<lparr>label = ''FACE_F'',
                    confidence = 8106479329266893 / 9007199254740992\<rparr>], st')"
  shows "check_image_content env image_data_base64 st =
           (\<lparr>appropriate = False,
             scores = [''EXPOSED_BREAST_F'' \<mapsto> 1 / 4,
                       ''FACE_F'' \<mapsto> 8106479329266893 / 9007199254740992],
             message = ''Inappropriate content detected: EXPOSED_BREAST_F (confidence: 0.25)''\<rparr>,
            st')"
proof -
  let ?sc = "[''EXPOSED_BREAST_F'' \<mapsto> 1 / 4,
              ''FACE_F'' \<mapsto> 8106479329266893 / 9007199254740992 :: rat]"
  have agg: "foldl keep_max Map.empty
               [\<lparr>label = ''EXPOSED_BREAST_F'', confidence = 1 / 4\<rparr>,
                \<lparr>label = ''FACE_F'',
                 confidence = 8106479329266893 / 9007199254740992\<rparr>] = ?sc"
    by (simp add: keep_max_def get_def py_max_def)
  have "evaluate ?sc =
          Inr \<lparr>appropriate = False, scores = ?sc,
               message = ''Inappropriate content detected: EXPOSED_BREAST_F (confidence: 0.25)''\<rparr>"
    by (simp add: evaluate_def high_risk_labels_def get_def explicit_threshold_def
        format_2f_quarter)
  with assms show ?thesis
    unfolding agg [symmetric] by (rule check_image_content_detections)
qed

theorem example_breast_and_face_witness:
  "run_detection
     \<lparr>DEPS_AVAILABLE = True, IMPORT_ERROR = [],
        NudeDetector = Inr (0 :: nat),
        b64decode = (\<lambda>s. Inr s), Image_open = (\<lambda>b. Inr b),
        mode = (\<lambda>i. ''RGBA''), convert = (\<lambda>i m. Inr i),
        np_array = (\<lambda>i. Inr i),
        detect = (\<lambda>h a. Inr [\<lparr>label = ''EXPOSED_BREAST_F'', confidence = 1 / 4\<rparr>,
                                 \<lparr>label = ''FACE_F'', confidence = 8106479329266893 / 9007199254740992\<rparr>])\<rparr>
     ''aGk='' \<lparr>detector = None, stdout = [], stderr = []\<rparr>
     = (Inr [\<lparr>label = ''EXPOSED_BREAST_F'', confidence = 1 / 4\<rparr>,
          \<lparr>label = ''FACE_F'', confidence = 8106479329266893 / 9007199254740992\<rparr>],
        \<lparr>detector = Some 0, stdout = [],
        stderr = [Text ''NudeNet detector initialized'']\<rparr>) \<and>
   check_image_content
     \<lparr>DEPS_AVAILABLE = True, IMPORT_ERROR = [],
        NudeDetector = Inr (0 :: nat),
        b64decode = (\<lambda>s. Inr s), Image_open = (\<lambda>b. Inr b),
        mode = (\<lambda>i. ''RGBA''), convert = (\<lambda>i m. Inr i),
        np_array = (\<lambda>i. Inr i),
        detect = (\<lambda>h a. Inr [\<lparr>label = ''EXPOSED_BREAST_F'', confidence = 1 / 4\<rparr>,
                                 \<lparr>label = ''FACE_F'', confidence = 8106479329266893 / 9007199254740992\<rparr>])\<rparr>
     ''aGk='' \<lparr>detector = None, stdout = [], stderr = []\<rparr>
     = (\<lparr>appropriate = False,
         scores = [''EXPOSED_BREAST_F'' \<mapsto> 1 / 4,
                 ''FACE_F'' \<mapsto> 8106479329266893 / 9007199254740992],
         message = ''Inappropriate content detected: EXPOSED_BREAST_F (confidence: 0.25)''\<rparr>,
        \<lparr>detector = Some 0, stdout = [],
        stderr = [Text ''NudeNet detector initialized'']\<rparr>)"
  (is "run_detection ?env ?s ?st = (Inr ?ds, ?st') \<and> ?verdict")
proof -
  have run: "run_detection ?env ?s ?st = (Inr ?ds, ?st')"
    by (simp add: run_detection_def init_detector_def)
  from example_breast_and_face [OF run] have ?verdict .
  with run show ?thesis by blast
qed

text \<open>
  C8. When decoding and detection succeed and the detector finds nothing, the filter
  returns \<open>appropriate = True\<close>, an empty dictionary of scores and the message
  \<^verbatim>\<open>Content appropriate for teen users\<close>.
\<close>

theorem no_detections_appropriate:
  assumes "run_detection env image_data_base64 st = (Inr [], st')"
  shows "check_image_content env image_data_base64 st =
           (\<lparr>appropriate = True, scores = Map.empty,
             message = ''Content appropriate for teen users''\<rparr>, st')"
proof -
  have "\<forall>l\<in>set high_risk_labels. get Map.empty l 0 \<le> explicit_threshold"
    by (simp add: get_def explicit_threshold_def)
  then have "evaluate (foldl keep_max Map.empty []) =
               Inr \<lparr>appropriate = True, scores = Map.empty,
                    message = ''Content appropriate for teen users''\<rparr>"
    by (simp add: evaluate_accept)
  with assms show ?thesis by (rule check_image_content_detections)
qed

theorem no_detections_appropriate_witness:
  "run_detection
     \<lparr>DEPS_AVAILABLE = True, IMPORT_ERROR = [],
        NudeDetector = Inr (0 :: nat),
        b64decode = (\<lambda>s. Inr s), Image_open = (\<lambda>b. Inr b),
        mode = (\<lambda>i. ''RGB''), convert = (\<lambda>i m. Inr i),
        np_array = (\<lambda>i. Inr i),
        detect = (\<lambda>h a. Inr [])\<rparr>
     ''aGk='' \<lparr>detector = None, stdout = [], stderr = []\<rparr>
     = (Inr [],
        \<lparr>detector = Some 0, stdout = [],
        stderr = [Text ''NudeNet detector initialized'']\<rparr>) \<and>
   check_image_content
     \<lparr>DEPS_AVAILABLE = True, IMPORT_ERROR = [],
        NudeDetector = Inr (0 :: nat),
        b64decode = (\<lambda>s. Inr s), Image_open = (\<lambda>b. Inr b),
        mode = (\<lambda>i. ''RGB''), convert = (\<lambda>i m. Inr i),
        np_array = (\<lambda>i. Inr i),
        detect = (\<lambda>h a. Inr [])\<rparr>
     ''aGk='' \<lparr>detector = None, stdout = [], stderr = []\<rparr>
     = (\<lparr>appropriate = True, scores = Map.empty,
         message = ''Content appropriate for teen users''\<rparr>,
        \<lparr>detector = Some 0, stdout = [],
        stderr = [Text ''NudeNet detector initialized'']\<rparr>)"
  (is "run_detection ?env ?s ?st = (Inr [], ?st') \<and> ?verdict")
proof -
  have run: "run_detection ?env ?s ?st = (Inr [], ?st')"
    by (simp add: run_detection_def init_detector_def)
  from no_detections_appropriate [OF run] have ?verdict .
  with run show ?thesis by blast
qed

text \<open>
  C2. \<^verbatim>\<open>check_image_content\<close> always returns a verdict. Whenever the body of its
  \<^verbatim>\<open>try\<close> block raises \<open>e\<close>, the verdict is \<open>appropriate = False\<close> with no scores
  and the message \<^verbatim>\<open>Content filtering error: \<close> followed by \<open>str e\<close>, which is
  not empty. This is so when \<^verbatim>\<open>init_detector\<close> raises (missing dependencies, or the
  constructor of the detector), when \<^verbatim>\<open>b64decode\<close> raises, when the image cannot be
  opened, converted or turned into an array, when the detector raises, and when the
  aggregation loop reads a key that a detection lacks. On detections that carry both
  keys the aggregation and the policy never raise (\<open>aggregate_foldl\<close>,
  \<open>evaluate_total\<close>). The exceptions are the instances of \<^verbatim>\<open>Exception\<close>, which the
  handler of line 103 catches; \<^verbatim>\<open>KeyboardInterrupt\<close> and \<^verbatim>\<open>SystemExit\<close> are not, and
  they pass through it.
\<close>

theorem errors_fail_closed:
  "(fst (try_body env s st) = Inl e \<longrightarrow>
      fst (check_image_content env s st) =
        \<lparr>appropriate = False, scores = Map.empty,
         message = ''Content filtering error: '' @ str e\<rparr>) \<and>
   (fst (init_detector env st) = Inl e \<longrightarrow>
      fst (check_image_content env s st) =
        \<lparr>appropriate = False, scores = Map.empty,
         message = ''Content filtering error: '' @ str e\<rparr>) \<and>
   (fst (init_detector env st) = Inr () \<and> b64decode env s = Inl e \<longrightarrow>
      fst (check_image_content env s st) =
        \<lparr>appropriate = False, scores = Map.empty,
         message = ''Content filtering error: '' @ str e\<rparr>) \<and>
   (fst (init_detector env st) = Inr () \<and> b64decode env s = Inr image_bytes \<and>
    Image_open env image_bytes = Inl e \<longrightarrow>
      fst (check_image_content env s st) =
        \<lparr>appropriate = False, scores = Map.empty,
         message = ''Content filtering error: '' @ str e\<rparr>) \<and>
   (fst (init_detector env st) = Inr () \<and> b64decode env s = Inr image_bytes \<and>
    Image_open env image_bytes = Inr img \<and> mode env img \<noteq> ''RGB'' \<and>
    convert env img ''RGB'' = Inl e \<longrightarrow>
      fst (check_image_content env s st) =
        \<lparr>appropriate = False, scores = Map.empty,
         message = ''Content filtering error: '' @ str e\<rparr>) \<and>
   (fst (init_detector env st) = Inr () \<and> b64decode env s = Inr image_bytes \<and>
    Image_open env image_bytes = Inr img \<and>
    (if mode env img \<noteq> ''RGB'' then convert env img ''RGB'' else Inr img) = Inr img_rgb \<and>
    np_array env img_rgb = Inl e \<longrightarrow>
      fst (check_image_content env s st) =
        \<lparr>appropriate = False, scores = Map.empty,
         message = ''Content filtering error: '' @ str e\<rparr>) \<and>
   (fst (init_detector env st) = Inr () \<and> b64decode env s = Inr image_bytes \<and>
    Image_open env image_bytes = Inr img \<and>
    (if mode env img \<noteq> ''RGB'' then convert env img ''RGB'' else Inr img) = Inr img_rgb \<and>
    np_array env img_rgb = Inr image_array \<and>
    detector (snd (init_detector env st)) = Some h \<and>
    detect env h image_array = Inl e \<longrightarrow>
      fst (check_image_content env s st) =
        \<lparr>appropriate = False, scores = Map.empty,
         message = ''Content filtering error: '' @ str e\<rparr>) \<and>
   (fst (run_detection_items env detect_items s st) = Inr items \<and>
    aggregate_items Map.empty items = Inl e \<longrightarrow>
      fst (check_image_content_dict env detect_items s st) =
        [''appropriate'' \<mapsto> PyBool False, ''scores'' \<mapsto> PyDict Map.empty,
         ''message'' \<mapsto> PyStr (''Content filtering error: '' @ str e)]) \<and>
   message \<lparr>appropriate = False, scores = Map.empty,
            message = ''Content filtering error: '' @ str e\<rparr> \<noteq> []"
  (is "(?body \<longrightarrow> ?R) \<and> (?init \<longrightarrow> ?R) \<and> (?b64 \<longrightarrow> ?R) \<and> (?open \<longrightarrow> ?R) \<and>
       (?conv \<longrightarrow> ?R) \<and> (?arr \<longrightarrow> ?R) \<and> (?det \<longrightarrow> ?R) \<and> (?agg \<longrightarrow> ?D) \<and> ?nonempty")
proof -
  have run: "fst (run_detection env s st) = Inl e \<Longrightarrow> ?R"
    by (rule check_image_content_fail_closed)
  have "?body \<longrightarrow> ?R"
    by (simp only: try_body_raises_iff) (blast intro: run)
  moreover have "?init \<longrightarrow> ?R"
  proof
    assume ?init
    then have "fst (run_detection env s st) = Inl e"
      by (cases "init_detector env st") (auto simp: run_detection_def)
    then show ?R by (rule run)
  qed
  moreover have "?b64 \<longrightarrow> ?R"
  proof
    assume ?b64
    then have "fst (run_detection env s st) = Inl e"
      by (cases "init_detector env st") (auto simp: run_detection_def)
    then show ?R by (rule run)
  qed
  moreover have "?open \<longrightarrow> ?R"
  proof
    assume ?open
    then have "fst (run_detection env s st) = Inl e"
      by (cases "init_detector env st") (auto simp: run_detection_def)
    then show ?R by (rule run)
  qed
  moreover have "?conv \<longrightarrow> ?R"
  proof
    assume ?conv
    then have "fst (run_detection env s st) = Inl e"
      by (cases "init_detector env st") (auto simp: run_detection_def)
    then show ?R by (rule run)
  qed
  moreover have "?arr \<longrightarrow> ?R"
  proof
    assume ?arr
    then have "fst (run_detection env s st) = Inl e"
      by (cases "init_detector env st") (auto simp: run_detection_def)
    then show ?R by (rule run)
  qed
  moreover have "?det \<longrightarrow> ?R"
  proof
    assume ?det
    then have "fst (run_detection env s st) = Inl e"
      by (cases "init_detector env st") (auto simp: run_detection_def)
    then show ?R by (rule run)
  qed
  moreover have "?agg \<longrightarrow> ?D"
    by (blast intro: aggregate_items_fail_closed)
  moreover have ?nonempty by simp
  ultimately show ?thesis by blast
qed

theorem errors_fail_closed_witness:
  "base64_b64decode ''YQ'' = Inl (Raised ''Incorrect padding'') \<and>
   base64_b64decode ''Yg=='' = Inr [98] \<and>
   fst (init_detector
     \<lparr>DEPS_AVAILABLE = True, IMPORT_ERROR = [],
        NudeDetector = Inr (0 :: nat),
        b64decode = base64_b64decode,
        Image_open = (\<lambda>b. if b = [98] then Inl (Raised ''cannot identify image file'')
                          else Inr b),
        mode = (\<lambda>i. ''P''),
        convert = (\<lambda>i m. if i = [99] then Inl (Raised ''conversion failed'') else Inr i),
        np_array = (\<lambda>i. if i = [97] then Inl (Raised ''bad array'') else Inr i),
        detect = (\<lambda>h a. Inl (Raised ''inference failed''))\<rparr>
     \<lparr>detector = None, stdout = [], stderr = []\<rparr>) = Inr () \<and>
   fst (check_image_content
     \<lparr>DEPS_AVAILABLE = True, IMPORT_ERROR = [],
        NudeDetector = Inr (0 :: nat),
        b64decode = base64_b64decode,
        Image_open = (\<lambda>b. if b = [98] then Inl (Raised ''cannot identify image file'')
                          else Inr b),
        mode = (\<lambda>i. ''P''),
        convert = (\<lambda>i m. if i = [99] then Inl (Raised ''conversion failed'') else Inr i),
        np_array = (\<lambda>i. if i = [97] then Inl (Raised ''bad array'') else Inr i),
        detect = (\<lambda>h a. Inl (Raised ''inference failed''))\<rparr>
     ''YQ'' \<lparr>detector = None, stdout = [], stderr = []\<rparr>)
     = \<lparr>appropriate = False, scores = Map.empty,
        message = ''Content filtering error: Incorrect padding''\<rparr> \<and>
   fst (check_image_content
     \<lparr>DEPS_AVAILABLE = True, IMPORT_ERROR = [],
        NudeDetector = Inr (0 :: nat),
        b64decode = base64_b64decode,
        Image_open = (\<lambda>b. if b = [98] then Inl (Raised ''cannot identify image file'')
                          else Inr b),
        mode = (\<lambda>i. ''P''),
        convert = (\<lambda>i m. if i = [99] then Inl (Raised ''conversion failed'') else Inr i),
        np_array = (\<lambda>i. if i = [97] then Inl (Raised ''bad array'') else Inr i),
        detect = (\<lambda>h a. Inl (Raised ''inference failed''))\<rparr>
     ''Yg=='' \<lparr>detector = None, stdout = [], stderr = []\<rparr>)
     = \<lparr>appropriate = False, scores = Map.empty,
        message = ''Content filtering error: cannot identify image file''\<rparr> \<and>
   fst (check_image_content
     \<lparr>DEPS_AVAILABLE = True, IMPORT_ERROR = [],
        NudeDetector = Inr (0 :: nat),
        b64decode = base64_b64decode,
        Image_open = (\<lambda>b. if b = [98] then Inl (Raised ''cannot identify image file'')
                          else Inr b),
        mode = (\<lambda>i. ''P''),
        convert = (\<lambda>i m. if i = [99] then Inl (Raised ''conversion failed'') else Inr i),
        np_array = (\<lambda>i. if i = [97] then Inl (Raised ''bad array'') else Inr i),
        detect = (\<lambda>h a. Inl (Raised ''inference failed''))\<rparr>
     ''Yw=='' \<lparr>detector = None, stdout = [], stderr = []\<rparr>)
     = \<lparr>appropriate = False, scores = Map.empty,
        message = ''Content filtering error: conversion failed''\<rparr> \<and>
   fst (check_image_content
     \<lparr>DEPS_AVAILABLE = True, IMPORT_ERROR = [],
        NudeDetector = Inr (0 :: nat),
        b64decode = base64_b64decode,
        Image_open = (\<lambda>b. if b = [98] then Inl (Raised ''cannot identify image file'')
                          else Inr b),
        mode = (\<lambda>i. ''P''),
        convert = (\<lambda>i m. if i = [99] then Inl (Raised ''conversion failed'') else Inr i),
        np_array = (\<lambda>i. if i = [97] then Inl (Raised ''bad array'') else Inr i),
        detect = (\<lambda>h a. Inl (Raised ''inference failed''))\<rparr>
     ''YQ=='' \<lparr>detector = None, stdout = [], stderr = []\<rparr>)
     = \<lparr>appropriate = False, scores = Map.empty,
        message = ''Content filtering error: bad array''\<rparr> \<and>
   fst (check_image_content
     \<lparr>DEPS_AVAILABLE = True, IMPORT_ERROR = [],
        NudeDetector = Inr (0 :: nat),
        b64decode = base64_b64decode,
        Image_open = (\<lambda>b. if b = [98] then Inl (Raised ''cannot identify image file'')
                          else Inr b),
        mode = (\<lambda>i. ''P''),
        convert = (\<lambda>i m. if i = [99] then Inl (Raised ''conversion failed'') else Inr i),
        np_array = (\<lambda>i. if i = [97] then Inl (Raised ''bad array'') else Inr i),
        detect = (\<lambda>h a. Inl (Raised ''inference failed''))\<rparr>
     ''ZA=='' \<lparr>detector = None, stdout = [], stderr = []\<rparr>)
     = \<lparr>appropriate = False, scores = Map.empty,
        message = ''Content filtering error: inference failed''\<rparr> \<and>
   fst (check_image_content
     \<lparr>DEPS_AVAILABLE = False, IMPORT_ERROR = ''No module named nudenet'',
        NudeDetector = Inr (0 :: nat),
        b64decode = base64_b64decode, Image_open = (\<lambda>b. Inr b),
        mode = (\<lambda>i. ''RGB''), convert = (\<lambda>i m. Inr i),
        np_array = (\<lambda>i. Inr i),
        detect = (\<lambda>h a. Inr [])\<rparr>
     ''aGk='' \<lparr>detector = None, stdout = [], stderr = []\<rparr>)
     = \<lparr>appropriate = False, scores = Map.empty,
        message = ''Content filtering error: Required dependencies not available: No module named nudenet''\<rparr> \<and>
   fst (check_image_content
     \<lparr>DEPS_AVAILABLE = True, IMPORT_ERROR = [],
        NudeDetector = (Inl (Raised ''model file not found'') :: exn + nat),
        b64decode = base64_b64decode, Image_open = (\<lambda>b. Inr b),
        mode = (\<lambda>i. ''RGB''), convert = (\<lambda>i m. Inr i),
        np_array = (\<lambda>i. Inr i),
        detect = (\<lambda>h a. Inr [])\<rparr>
     ''aGk='' \<lparr>detector = None, stdout = [], stderr = []\<rparr>)
     = \<lparr>appropriate = False, scores = Map.empty,
        message = ''Content filtering error: model file not found''\<rparr> \<and>
   aggregate_items Map.empty
     [\<lparr>item_class = Some ''FACE_F'', item_score = Some (1 / 2)\<rparr>,
      \<lparr>item_class = None, item_score = Some (1 / 4)\<rparr>] = Inl (KeyError ''class'') \<and>
   fst (check_image_content_dict
     \<lparr>DEPS_AVAILABLE = True, IMPORT_ERROR = [],
        NudeDetector = Inr (0 :: nat),
        b64decode = base64_b64decode,
        Image_open = (\<lambda>b. if b = [98] then Inl (Raised ''cannot identify image file'')
                          else Inr b),
        mode = (\<lambda>i. ''P''),
        convert = (\<lambda>i m. if i = [99] then Inl (Raised ''conversion failed'') else Inr i),
        np_array = (\<lambda>i. if i = [97] then Inl (Raised ''bad array'') else Inr i),
        detect = (\<lambda>h a. Inl (Raised ''inference failed''))\<rparr>
     (\<lambda>h a. Inr [\<lparr>item_class = Some ''FACE_F'', item_score = Some (1 / 2)\<rparr>,
                  \<lparr>item_class = None, item_score = Some (1 / 4)\<rparr>])
     ''ZA=='' \<lparr>detector = None, stdout = [], stderr = []\<rparr>)
     = [''appropriate'' \<mapsto> PyBool False, ''scores'' \<mapsto> PyDict Map.empty,
        ''message'' \<mapsto> PyStr (''Content filtering error: '' @ [CHR 0x27] @ ''class'' @ [CHR 0x27])]"
proof -
  let ?envf = "\<lparr>DEPS_AVAILABLE = True, IMPORT_ERROR = [],
        NudeDetector = Inr (0 :: nat),
        b64decode = base64_b64decode,
        Image_open = (\<lambda>b. if b = [98] then Inl (Raised ''cannot identify image file'')
                          else Inr b),
        mode = (\<lambda>i. ''P''),
        convert = (\<lambda>i m. if i = [99] then Inl (Raised ''conversion failed'') else Inr i),
        np_array = (\<lambda>i. if i = [97] then Inl (Raised ''bad array'') else Inr i),
        detect = (\<lambda>h a. Inl (Raised ''inference failed''))\<rparr>"
  let ?envn = "\<lparr>DEPS_AVAILABLE = False, IMPORT_ERROR = ''No module named nudenet'',
        NudeDetector = Inr (0 :: nat),
        b64decode = base64_b64decode, Image_open = (\<lambda>b. Inr b),
        mode = (\<lambda>i. ''RGB''), convert = (\<lambda>i m. Inr i),
        np_array = (\<lambda>i. Inr i),
        detect = (\<lambda>h a. Inr [])\<rparr>"
  let ?envc = "\<lparr>DEPS_AVAILABLE = True, IMPORT_ERROR = [],
        NudeDetector = (Inl (Raised ''model file not found'') :: exn + nat),
        b64decode = base64_b64decode, Image_open = (\<lambda>b. Inr b),
        mode = (\<lambda>i. ''RGB''), convert = (\<lambda>i m. Inr i),
        np_array = (\<lambda>i. Inr i),
        detect = (\<lambda>h a. Inr [])\<rparr>"
  let ?di = "(\<lambda>h a. Inr [\<lparr>item_class = Some ''FACE_F'', item_score = Some (1 / 2)\<rparr>,
                  \<lparr>item_class = None, item_score = Some (1 / 4)\<rparr>])"
  let ?st = "\<lparr>detector = None, stdout = [], stderr = []\<rparr>"
  have padding: "base64_b64decode ''YQ'' = Inl (Raised ''Incorrect padding'')"
    by (simp add: base64_b64decode_def table_a2b_base64_def base64_alphabet_def)
  have b: "base64_b64decode ''Yg=='' = Inr [98]"
    by (simp add: base64_b64decode_def table_a2b_base64_def base64_alphabet_def)
  have c: "base64_b64decode ''Yw=='' = Inr [99]"
    by (simp add: base64_b64decode_def table_a2b_base64_def base64_alphabet_def)
  have a: "base64_b64decode ''YQ=='' = Inr [97]"
    by (simp add: base64_b64decode_def table_a2b_base64_def base64_alphabet_def)
  have d: "base64_b64decode ''ZA=='' = Inr [100]"
    by (simp add: base64_b64decode_def table_a2b_base64_def base64_alphabet_def)
  have init: "fst (init_detector ?envf ?st) = Inr ()" by (simp add: init_detector_def)
  have stage3: "fst (check_image_content ?envf ''YQ'' ?st)
     = \<lparr>appropriate = False, scores = Map.empty,
        message = ''Content filtering error: Incorrect padding''\<rparr>"
    using errors_fail_closed [where env = ?envf and s = "''YQ''" and st = ?st
        and e = "Raised ''Incorrect padding''",
        THEN conjunct2, THEN conjunct2, THEN conjunct1]
    by (simp add: init_detector_def padding a b c d)
  have stage4: "fst (check_image_content ?envf ''Yg=='' ?st)
     = \<lparr>appropriate = False, scores = Map.empty,
        message = ''Content filtering error: cannot identify image file''\<rparr>"
    using errors_fail_closed [where env = ?envf and s = "''Yg==''" and st = ?st
        and e = "Raised ''cannot identify image file''" and image_bytes = "[98]",
        THEN conjunct2, THEN conjunct2, THEN conjunct2, THEN conjunct1]
    by (simp add: init_detector_def padding a b c d)
  have stage5: "fst (check_image_content ?envf ''Yw=='' ?st)
     = \<lparr>appropriate = False, scores = Map.empty,
        message = ''Content filtering error: conversion failed''\<rparr>"
    using errors_fail_closed [where env = ?envf and s = "''Yw==''" and st = ?st
        and e = "Raised ''conversion failed''" and image_bytes = "[99]" and img = "[99]",
        THEN conjunct2, THEN conjunct2, THEN conjunct2, THEN conjunct2, THEN conjunct1]
    by (simp add: init_detector_def padding a b c d)
  have stage6: "fst (check_image_content ?envf ''YQ=='' ?st)
     = \<lparr>appropriate = False, scores = Map.empty,
        message = ''Content filtering error: bad array''\<rparr>"
    using errors_fail_closed [where env = ?envf and s = "''YQ==''" and st = ?st
        and e = "Raised ''bad array''" and image_bytes = "[97]" and img = "[97]" and img_rgb = "[97]",
        THEN conjunct2, THEN conjunct2, THEN conjunct2, THEN conjunct2, THEN conjunct2, THEN conjunct1]
    by (simp add: init_detector_def padding a b c d)
  have stage7: "fst (check_image_content ?envf ''ZA=='' ?st)
     = \<lparr>appropriate = False, scores = Map.empty,
        message = ''Content filtering error: inference failed''\<rparr>"
    using errors_fail_closed [where env = ?envf and s = "''ZA==''" and st = ?st
        and e = "Raised ''inference failed''" and image_bytes = "[100]" and img = "[100]" and img_rgb = "[100]"
        and image_array = "[100]" and h = 0,
        THEN conjunct2, THEN conjunct2, THEN conjunct2, THEN conjunct2, THEN conjunct2, THEN conjunct2, THEN conjunct1]
    by (simp add: init_detector_def padding a b c d)
  have deps: "fst (check_image_content ?envn ''aGk='' ?st)
     = \<lparr>appropriate = False, scores = Map.empty,
        message = ''Content filtering error: Required dependencies not available: No module named nudenet''\<rparr>"
    using errors_fail_closed [where env = ?envn and s = "''aGk=''" and st = ?st
        and e = "ImportError ''Required dependencies not available: No module named nudenet''",
        THEN conjunct2, THEN conjunct1]
    by (simp add: init_detector_def)
  have constructor: "fst (check_image_content ?envc ''aGk='' ?st)
     = \<lparr>appropriate = False, scores = Map.empty,
        message = ''Content filtering error: model file not found''\<rparr>"
    using errors_fail_closed [where env = ?envc and s = "''aGk=''" and st = ?st
        and e = "Raised ''model file not found''", THEN conjunct1]
    by (simp add: try_body_def run_detection_def init_detector_def)
  have agg: "aggregate_items Map.empty
     [\<lparr>item_class = Some ''FACE_F'', item_score = Some (1 / 2)\<rparr>,
      \<lparr>item_class = None, item_score = Some (1 / 4)\<rparr>] = Inl (KeyError ''class'')"
    by simp
  have items: "fst (check_image_content_dict ?envf ?di ''ZA=='' ?st)
     = [''appropriate'' \<mapsto> PyBool False, ''scores'' \<mapsto> PyDict Map.empty,
        ''message'' \<mapsto> PyStr (''Content filtering error: '' @ [CHR 0x27] @ ''class'' @ [CHR 0x27])]"
    using errors_fail_closed [where env = ?envf and s = "''ZA==''" and st = ?st
        and e = "KeyError ''class''" and detect_items = ?di
        and items = "[\<lparr>item_class = Some ''FACE_F'', item_score = Some (1 / 2)\<rparr>,
      \<lparr>item_class = None, item_score = Some (1 / 4)\<rparr>]",
        THEN conjunct2, THEN conjunct2, THEN conjunct2, THEN conjunct2, THEN conjunct2, THEN conjunct2, THEN conjunct2, THEN conjunct1]
    by (simp add: run_detection_items_def init_detector_def d quoted_def)
  from padding b init stage3 stage4 stage5 stage6 stage7 deps constructor agg items show ?thesis
    by (intro conjI)
qed

text \<open>
  A payload that is not well-formed base64 need not make the decoder raise: it skips
  every character outside the alphabet, and raises only when the characters that
  remain do not fill their groups of four. Below, three exclamation marks precede the
  encoding of a PNG file of one white pixel. The decoder returns the bytes of the file,
  and with a detector that finds nothing in it the content is appropriate.
\<close>

theorem malformed_payload_accepted:
  "\<not> well_formed_base64
      ''!!!iVBORw0KGgoAAAANSUhEUgAAAAEAAAABCAIAAACQd1PeAAAADElEQVR42mP4//8/AAX+Av4zEpUUAAAAAElFTkSuQmCC'' \<and>
   base64_b64decode
      ''!!!iVBORw0KGgoAAAANSUhEUgAAAAEAAAABCAIAAACQd1PeAAAADElEQVR42mP4//8/AAX+Av4zEpUUAAAAAElFTkSuQmCC''
     = Inr [137, 80, 78, 71, 13, 10, 26, 10, 0, 0, 0, 13, 73, 72, 68, 82, 0, 0, 0, 1, 0, 0, 0,
           1, 8, 2, 0, 0, 0, 144, 119, 83, 222, 0, 0, 0, 12, 73, 68, 65, 84, 120, 218, 99, 248,
           255, 255, 63, 0, 5, 254, 2, 254, 51, 18, 149, 20, 0, 0, 0, 0, 73, 69, 78, 68, 174,
           66, 96, 130] \<and>
   fst (check_image_content
     \<lparr>DEPS_AVAILABLE = True, IMPORT_ERROR = [],
        NudeDetector = Inr (0 :: nat),
        b64decode = base64_b64decode,
        Image_open = (\<lambda>b. if take 8 b = [137, 80, 78, 71, 13, 10, 26, 10] then Inr b
                          else Inl (Raised ''cannot identify image file'')),
        mode = (\<lambda>i. ''RGB''), convert = (\<lambda>i m. Inr i),
        np_array = (\<lambda>i. Inr i),
        detect = (\<lambda>h a. Inr [])\<rparr>
     ''!!!iVBORw0KGgoAAAANSUhEUgAAAAEAAAABCAIAAACQd1PeAAAADElEQVR42mP4//8/AAX+Av4zEpUUAAAAAElFTkSuQmCC''
     \<lparr>detector = None, stdout = [], stderr = []\<rparr>)
     = \<lparr>appropriate = True, scores = Map.empty,
        message = ''Content appropriate for teen users''\<rparr>"
  (is "\<not> well_formed_base64 ?payload \<and> base64_b64decode ?payload = Inr ?png \<and> ?verdict")
proof -
  have malformed: "\<not> well_formed_base64 ?payload"
    by (simp add: well_formed_base64_def base64_alphabet_def)
  have decoded: "base64_b64decode ?payload = Inr ?png"
    by (simp add: base64_b64decode_def table_a2b_base64_def base64_alphabet_def)
  have ?verdict
    by (simp add: check_image_content_def try_body_def run_detection_def init_detector_def
        decoded evaluate_def high_risk_labels_def get_def explicit_threshold_def)
  with malformed decoded show ?thesis by (intro conjI)
qed

section \<open>The detector handle\<close>

text \<open>
  C7. After a call of \<^verbatim>\<open>init_detector\<close> that returns, the handle is set, and every
  later call returns and leaves the whole process as it is (the handle, and both
  streams: nothing is constructed, nothing is printed), however many calls follow. The
  one call that finds no handle stores the detector it constructs and writes the notice
  once. A handle that is set is never changed or cleared. When the dependencies are
  missing every call raises \<^verbatim>\<open>ImportError\<close> and leaves the process as it is.
\<close>

theorem init_detector_once:
  "(init_detector env st = (Inr (), st') \<longrightarrow>
      detector st' \<noteq> None \<and>
      init_detector env st' = (Inr (), st') \<and>
      ((\<lambda>s. snd (init_detector env s)) ^^ n) st' = st') \<and>
   (detector st = None \<and> init_detector env st = (Inr (), st') \<longrightarrow>
      NudeDetector env = Inr h \<longrightarrow>
      st' = st\<lparr>detector := Some h,
                stderr := stderr st @ [Text ''NudeNet detector initialized'']\<rparr>) \<and>
   (detector st = Some h \<longrightarrow> snd (init_detector env st) = st) \<and>
   (\<not> DEPS_AVAILABLE env \<longrightarrow>
      init_detector env st =
        (Inl (ImportError (''Required dependencies not available: '' @ IMPORT_ERROR env)),
         st))"
proof (intro conjI impI)
  assume ok: "init_detector env st = (Inr (), st')"
  then obtain h' where "detector st' = Some h'"
    using init_detector_success_handle by blast
  then show "detector st' \<noteq> None" by simp
  from ok show "init_detector env st' = (Inr (), st')" by (rule init_detector_idempotent)
  from ok show "((\<lambda>s. snd (init_detector env s)) ^^ n) st' = st'"
    by (rule init_detector_repeated)
next
  assume "detector st = None \<and> init_detector env st = (Inr (), st')"
    and "NudeDetector env = Inr h"
  then show "st' = st\<lparr>detector := Some h,
                stderr := stderr st @ [Text ''NudeNet detector initialized'']\<rparr>"
    by (auto simp: init_detector_def split: if_splits)
next
  assume "detector st = Some h"
  then show "snd (init_detector env st) = st" by (rule init_detector_keeps_handle)
next
  assume "\<not> DEPS_AVAILABLE env"
  then show "init_detector env st =
        (Inl (ImportError (''Required dependencies not available: '' @ IMPORT_ERROR env)),
         st)"
    by (simp add: init_detector_def)
qed

theorem init_detector_once_witness:
  "init_detector
     \<lparr>DEPS_AVAILABLE = True, IMPORT_ERROR = [],
        NudeDetector = Inr (0 :: nat),
        b64decode = (\<lambda>s. Inr s), Image_open = (\<lambda>b. Inr b),
        mode = (\<lambda>i. ''RGB''), convert = (\<lambda>i m. Inr i),
        np_array = (\<lambda>i. Inr i),
        detect = (\<lambda>h a. Inr [])\<rparr>
     \<lparr>detector = None, stdout = [], stderr = []\<rparr>
     = (Inr (),
        \<lparr>detector = Some 0, stdout = [],
        stderr = [Text ''NudeNet detector initialized'']\<rparr>) \<and>
   init_detector
     \<lparr>DEPS_AVAILABLE = True, IMPORT_ERROR = [],
        NudeDetector = Inr (0 :: nat),
        b64decode = (\<lambda>s. Inr s), Image_open = (\<lambda>b. Inr b),
        mode = (\<lambda>i. ''RGB''), convert = (\<lambda>i m. Inr i),
        np_array = (\<lambda>i. Inr i),
        detect = (\<lambda>h a. Inr [])\<rparr>
     \<lparr>detector = Some 0, stdout = [],
        stderr = [Text ''NudeNet detector initialized'']\<rparr>
     = (Inr (),
        \<lparr>detector = Some 0, stdout = [],
        stderr = [Text ''NudeNet detector initialized'']\<rparr>) \<and>
   ((\<lambda>s. snd (init_detector
     \<lparr>DEPS_AVAILABLE = True, IMPORT_ERROR = [],
        NudeDetector = Inr (0 :: nat),
        b64decode = (\<lambda>s. Inr s), Image_open = (\<lambda>b. Inr b),
        mode = (\<lambda>i. ''RGB''), convert = (\<lambda>i m. Inr i),
        np_array = (\<lambda>i. Inr i),
        detect = (\<lambda>h a. Inr [])\<rparr> s)) ^^ 3)
     \<lparr>detector = Some 0, stdout = [],
        stderr = [Text ''NudeNet detector initialized'']\<rparr>
     = \<lparr>detector = Some 0, stdout = [],
        stderr = [Text ''NudeNet detector initialized'']\<rparr> \<and>
   init_detector
     \<lparr>DEPS_AVAILABLE = False, IMPORT_ERROR = ''No module named nudenet'',
        NudeDetector = Inr (0 :: nat),
        b64decode = (\<lambda>s. Inr s), Image_open = (\<lambda>b. Inr b),
        mode = (\<lambda>i. ''RGB''), convert = (\<lambda>i m. Inr i),
        np_array = (\<lambda>i. Inr i),
        detect = (\<lambda>h a. Inr [])\<rparr>
     \<lparr>detector = None, stdout = [], stderr = []\<rparr>
     = (Inl (ImportError ''Required dependencies not available: No module named nudenet''),
        \<lparr>detector = None, stdout = [], stderr = []\<rparr>)"
  (is "init_detector ?env ?st0 = (Inr (), ?st1) \<and> ?again \<and> ?thrice \<and> ?missing")
proof -
  have first: "init_detector ?env ?st0 = (Inr (), ?st1)"
    by (simp add: init_detector_def)
  note inst = init_detector_once [of ?env ?st0 ?st1 3 0, THEN conjunct1, THEN mp, OF first]
  from inst have again: ?again by blast
  from inst have thrice: ?thrice by blast
  have missing: ?missing
    using init_detector_once [where st = ?st0 and env = "\<lparr>DEPS_AVAILABLE = False, IMPORT_ERROR = ''No module named nudenet'',
        NudeDetector = Inr (0 :: nat),
        b64decode = (\<lambda>s. Inr s), Image_open = (\<lambda>b. Inr b),
        mode = (\<lambda>i. ''RGB''), convert = (\<lambda>i m. Inr i),
        np_array = (\<lambda>i. Inr i),
        detect = (\<lambda>h a. Inr [])\<rparr>",
        THEN conjunct2, THEN conjunct2, THEN conjunct2]
    by simp
  from first again thrice missing show ?thesis by (intro conjI)
qed

section \<open>The command line\<close>

text \<open>
  C5. \<^verbatim>\<open>sys.argv\<close> holds the script and then the positional arguments. When their
  number is not one, \<^verbatim>\<open>main\<close> prints the usage verdict (\<open>appropriate = False\<close>, no
  scores) and exits with status 1. With exactly one, it prints the verdict of
  \<^verbatim>\<open>check_image_content\<close> on it and exits with status 0, whatever the verdict is.
\<close>

theorem main_exit_status:
  "(length (tl argv) \<noteq> 1 \<longrightarrow>
      main env argv st =
        (1, st\<lparr>stdout := stdout st @
                  [Json \<lparr>appropriate = False, scores = Map.empty,
                         message = ''Usage: python content-filter.py <base64_image_data>''\<rparr>]\<rparr>)) \<and>
   (length (tl argv) = 1 \<longrightarrow>
      fst (main env argv st) = 0 \<and>
      stdout (snd (main env argv st)) =
        stdout st @ [Json (fst (check_image_content env (argv ! 1) st))])"
  by (simp add: positional_arguments main_usage main_run)

theorem main_exit_status_witness:
  "main
     \<lparr>DEPS_AVAILABLE = True, IMPORT_ERROR = [],
        NudeDetector = Inr (0 :: nat),
        b64decode = (\<lambda>s. Inl (Raised ''Incorrect padding'') :: exn + string), Image_open = (\<lambda>b. Inr b),
        mode = (\<lambda>i. ''RGB''), convert = (\<lambda>i m. Inr i),
        np_array = (\<lambda>i. Inr i),
        detect = (\<lambda>h a. Inr [])\<rparr>
     [''content-filter.py'']
     \<lparr>detector = None, stdout = [], stderr = []\<rparr>
     = (1, \<lparr>detector = None,
            stdout = [Json \<lparr>appropriate = False, scores = Map.empty,
               message = ''Usage: python content-filter.py <base64_image_data>''\<rparr>],
            stderr = []\<rparr>) \<and>
   main
     \<lparr>DEPS_AVAILABLE = True, IMPORT_ERROR = [],
        NudeDetector = Inr (0 :: nat),
        b64decode = (\<lambda>s. Inl (Raised ''Incorrect padding'') :: exn + string), Image_open = (\<lambda>b. Inr b),
        mode = (\<lambda>i. ''RGB''), convert = (\<lambda>i m. Inr i),
        np_array = (\<lambda>i. Inr i),
        detect = (\<lambda>h a. Inr [])\<rparr>
     [''content-filter.py'', ''aGk='', ''aGk='']
     \<lparr>detector = None, stdout = [], stderr = []\<rparr>
     = (1, \<lparr>detector = None,
            stdout = [Json \<lparr>appropriate = False, scores = Map.empty,
               message = ''Usage: python content-filter.py <base64_image_data>''\<rparr>],
            stderr = []\<rparr>) \<and>
   fst (main
     \<lparr>DEPS_AVAILABLE = True, IMPORT_ERROR = [],
        NudeDetector = Inr (0 :: nat),
        b64decode = (\<lambda>s. Inl (Raised ''Incorrect padding'') :: exn + string), Image_open = (\<lambda>b. Inr b),
        mode = (\<lambda>i. ''RGB''), convert = (\<lambda>i m. Inr i),
        np_array = (\<lambda>i. Inr i),
        detect = (\<lambda>h a. Inr [])\<rparr>
     [''content-filter.py'', ''!'']
     \<lparr>detector = None, stdout = [], stderr = []\<rparr>) = 0 \<and>
   stdout (snd (main
     \<lparr>DEPS_AVAILABLE = True, IMPORT_ERROR = [],
        NudeDetector = Inr (0 :: nat),
        b64decode = (\<lambda>s. Inl (Raised ''Incorrect padding'') :: exn + string), Image_open = (\<lambda>b. Inr b),
        mode = (\<lambda>i. ''RGB''), convert = (\<lambda>i m. Inr i),
        np_array = (\<lambda>i. Inr i),
        detect = (\<lambda>h a. Inr [])\<rparr>
     [''content-filter.py'', ''!'']
     \<lparr>detector = None, stdout = [], stderr = []\<rparr>))
     = [Json \<lparr>appropriate = False, scores = Map.empty,
               message = ''Content filtering error: Incorrect padding''\<rparr>]"
  (is "?none \<and> ?two \<and> ?status \<and> ?out")
proof -
  let ?env = "\<lparr>DEPS_AVAILABLE = True, IMPORT_ERROR = [],
        NudeDetector = Inr (0 :: nat),
        b64decode = (\<lambda>s. Inl (Raised ''Incorrect padding'') :: exn + string), Image_open = (\<lambda>b. Inr b),
        mode = (\<lambda>i. ''RGB''), convert = (\<lambda>i m. Inr i),
        np_array = (\<lambda>i. Inr i),
        detect = (\<lambda>h a. Inr [])\<rparr>"
  let ?st = "\<lparr>detector = None, stdout = [], stderr = []\<rparr>"
  have none: ?none
    using main_exit_status [of "[''content-filter.py'']" ?env ?st, THEN conjunct1]
    by simp
  have two: ?two
    using main_exit_status [of "[''content-filter.py'', ''aGk='', ''aGk='']" ?env ?st,
        THEN conjunct1]
    by simp
  have verdict: "fst (check_image_content ?env ''!'' ?st)
     = \<lparr>appropriate = False, scores = Map.empty,
               message = ''Content filtering error: Incorrect padding''\<rparr>"
    by (simp add: check_image_content_def try_body_def run_detection_def init_detector_def)
  have one: "?status \<and> ?out"
    using main_exit_status [of "[''content-filter.py'', ''!'']" ?env ?st, THEN conjunct2]
    by (simp add: verdict)
  from none two one [THEN conjunct1] one [THEN conjunct2] show ?thesis by (intro conjI)
qed

text \<open>
  C10. With exactly one argument, standard output receives one line, the verdict as
  JSON, and the notice of \<^verbatim>\<open>init_detector\<close> is not among what it receives: the
  notice goes to standard error, once, when this run constructs the detector.
\<close>

theorem stdout_one_line:
  assumes "length argv = 2"
  shows "stdout (snd (main env argv st)) =
           stdout st @ [Json (fst (check_image_content env (argv ! 1) st))] \<and>
         Text ''NudeNet detector initialized''
           \<notin> set (drop (length (stdout st)) (stdout (snd (main env argv st)))) \<and>
         stderr (snd (main env argv st)) =
           stderr st @
             (if DEPS_AVAILABLE env \<and> detector st = None \<and> \<not> isl (NudeDetector env)
              then [Text ''NudeNet detector initialized''] else [])"
  using assms check_image_content_state [of env "argv ! 1" st] init_detector_stderr [of env st]
  by (simp add: main_run)

theorem stdout_one_line_witness:
  "length [''content-filter.py'', ''aGk=''] = 2 \<and>
   stdout (snd (main
     \<lparr>DEPS_AVAILABLE = True, IMPORT_ERROR = [],
        NudeDetector = Inr (0 :: nat),
        b64decode = (\<lambda>s. Inr s), Image_open = (\<lambda>b. Inr b),
        mode = (\<lambda>i. ''RGB''), convert = (\<lambda>i m. Inr i),
        np_array = (\<lambda>i. Inr i),
        detect = (\<lambda>h a. Inr [])\<rparr>
     [''content-filter.py'', ''aGk='']
     \<lparr>detector = None, stdout = [], stderr = []\<rparr>))
     = [Json \<lparr>appropriate = True, scores = Map.empty,
               message = ''Content appropriate for teen users''\<rparr>] \<and>
   stderr (snd (main
     \<lparr>DEPS_AVAILABLE = True, IMPORT_ERROR = [],
        NudeDetector = Inr (0 :: nat),
        b64decode = (\<lambda>s. Inr s), Image_open = (\<lambda>b. Inr b),
        mode = (\<lambda>i. ''RGB''), convert = (\<lambda>i m. Inr i),
        np_array = (\<lambda>i. Inr i),
        detect = (\<lambda>h a. Inr [])\<rparr>
     [''content-filter.py'', ''aGk='']
     \<lparr>detector = None, stdout = [], stderr = []\<rparr>))
     = [Text ''NudeNet detector initialized'']"
  (is "?len \<and> ?out \<and> ?err")
proof -
  let ?env = "\<lparr>DEPS_AVAILABLE = True, IMPORT_ERROR = [],
        NudeDetector = Inr (0 :: nat),
        b64decode = (\<lambda>s. Inr s), Image_open = (\<lambda>b. Inr b),
        mode = (\<lambda>i. ''RGB''), convert = (\<lambda>i m. Inr i),
        np_array = (\<lambda>i. Inr i),
        detect = (\<lambda>h a. Inr [])\<rparr>"
  let ?st = "\<lparr>detector = None, stdout = [], stderr = []\<rparr>"
  have len: ?len by simp
  have verdict: "fst (check_image_content ?env ''aGk='' ?st)
     = \<lparr>appropriate = True, scores = Map.empty,
               message = ''Content appropriate for teen users''\<rparr>"
    by (simp add: check_image_content_def try_body_def run_detection_def init_detector_def
        evaluate_def high_risk_labels_def get_def explicit_threshold_def)
  from stdout_one_line [OF len, of ?env ?st] have run: "?out \<and> ?err"
    by (simp add: verdict)
  from len run [THEN conjunct1] run [THEN conjunct2] show ?thesis by (intro conjI)
qed

text \<open>
  C9. The dictionary that \<^verbatim>\<open>check_image_content\<close> returns, and the one that \<^verbatim>\<open>main\<close>
  gives to \<^verbatim>\<open>json.dumps\<close>, has exactly the keys \<^verbatim>\<open>appropriate\<close>, \<^verbatim>\<open>scores\<close> and
  \<^verbatim>\<open>message\<close>; their values are a truth value, a dictionary from labels to numbers,
  and a string that is not empty. The dictionaries built are the rejection of lines 80
  to 84, the acceptance of lines 97 to 101, the error of lines 105 to 109 and the usage
  error of lines 114 to 118. With a detector whose items carry both keys, the
  dictionary returned is that of the verdict of \<open>check_image_content\<close>, and the one
  given to \<^verbatim>\<open>json.dumps\<close> is that of the verdict \<open>main\<close> prints.
\<close>

theorem verdict_shape:
  "(\<exists>a sc m.
      fst (check_image_content_dict env detect_items s st) =
        [''appropriate'' \<mapsto> PyBool a,
         ''scores'' \<mapsto> PyDict (\<lambda>l. map_option PyNumber (sc l)),
         ''message'' \<mapsto> PyStr m] \<and>
      m \<noteq> []) \<and>
   (\<exists>a sc m.
      main_result env detect_items argv st =
        [''appropriate'' \<mapsto> PyBool a,
         ''scores'' \<mapsto> PyDict (\<lambda>l. map_option PyNumber (sc l)),
         ''message'' \<mapsto> PyStr m] \<and>
      m \<noteq> []) \<and>
   dom (fst (check_image_content_dict env detect_items s st)) =
     {''appropriate'', ''scores'', ''message''} \<and>
   dom (main_result env detect_items argv st) = {''appropriate'', ''scores'', ''message''} \<and>
   ((\<exists>sc. \<exists>i<length high_risk_labels.
       fst (check_image_content_dict env detect_items s st) =
         [''appropriate'' \<mapsto> PyBool False, ''scores'' \<mapsto> scores_value sc,
          ''message'' \<mapsto> PyStr (''Inappropriate content detected: '' @ high_risk_labels ! i
            @ '' (confidence: '' @ format_2f (get sc (high_risk_labels ! i) 0) @ '')'')]) \<or>
    (\<exists>sc. fst (check_image_content_dict env detect_items s st) =
       [''appropriate'' \<mapsto> PyBool True, ''scores'' \<mapsto> scores_value sc,
        ''message'' \<mapsto> PyStr ''Content appropriate for teen users'']) \<or>
    (\<exists>e. fst (check_image_content_dict env detect_items s st) =
       [''appropriate'' \<mapsto> PyBool False, ''scores'' \<mapsto> PyDict Map.empty,
        ''message'' \<mapsto> PyStr (''Content filtering error: '' @ str e)])) \<and>
   (main_result env detect_items argv st =
      [''appropriate'' \<mapsto> PyBool False, ''scores'' \<mapsto> PyDict Map.empty,
       ''message'' \<mapsto> PyStr ''Usage: python content-filter.py <base64_image_data>''] \<or>
    main_result env detect_items argv st =
      fst (check_image_content_dict env detect_items (argv ! 1) st)) \<and>
   check_image_content_dict env
       (\<lambda>h a. map_sum id (map detection_item) (detect env h a)) s st =
     (verdict_dict (fst (check_image_content env s st)),
      snd (check_image_content env s st)) \<and>
   (\<exists>v. stdout (snd (main env argv st)) = stdout st @ [Json v] \<and>
        verdict_dict v =
          main_result env (\<lambda>h a. map_sum id (map detection_item) (detect env h a)) argv st)"
  (is "?shape \<and> ?shape_main \<and> ?keys \<and> ?keys_main \<and> ?paths \<and> ?paths_main \<and> ?same \<and> ?printed")
proof -
  have shape: ?shape by (rule check_image_content_dict_shape)
  have shape_main: ?shape_main by (rule main_result_shape)
  from shape obtain a sc m where
    "fst (check_image_content_dict env detect_items s st) =
       [''appropriate'' \<mapsto> PyBool a,
        ''scores'' \<mapsto> PyDict (\<lambda>l. map_option PyNumber (sc l)),
        ''message'' \<mapsto> PyStr m]"
    by blast
  then have keys: ?keys by (simp only: dom_three_keys)
  from shape_main obtain a sc m where
    "main_result env detect_items argv st =
       [''appropriate'' \<mapsto> PyBool a,
        ''scores'' \<mapsto> PyDict (\<lambda>l. map_option PyNumber (sc l)),
        ''message'' \<mapsto> PyStr m]"
    by blast
  then have keys_main: ?keys_main by (simp only: dom_three_keys)
  have paths: ?paths by (rule check_image_content_dict_cases)
  have paths_main: ?paths_main by (rule main_result_cases)
  have same: ?same by (rule check_image_content_dict_complete)
  have printed: ?printed by (rule main_result_printed)
  from shape shape_main keys keys_main paths paths_main same printed show ?thesis
    by (intro conjI)
qed

end
